theory Spec2Isabelle
  imports Complex_Main
begin

section \<open>The conversion server of ekko-convert: progress, estimates, registry, outcome\<close>

text \<open>
  The development follows \<^verbatim>\<open>apps/(backend)/cmd/server/main.go\<close>. Each definition
  carries the name of the Go function it embeds.

  Numbers. A finite \<^verbatim>\<open>float64\<close> is the rational number it stands for. The progress
  functions compute in binary64: every division and multiplication is rounded to the
  nearest value of 53 significant bits, ties to even, with gradual underflow and
  overflow to infinity (\<open>toFloat64\<close> below). A zero has no sign; the program divides by
  positive numbers only. The parsing functions of durations, fractions and frame counts
  return the parsed value or combine parsed values; their sums, products and quotients
  are taken exactly. A Go \<^verbatim>\<open>int\<close> is a 64-bit integer; every integer the program computes
  outside the conversion from \<^verbatim>\<open>float64\<close> stays between \<open>-5\<close> and \<open>105\<close>, so
  \<open>int\<close> models it, and the conversion itself is written out with its range check
  (\<open>int_of_float64\<close> below).

  Strings are byte lists, as in Go.
\<close>

subsection \<open>Binary64 arithmetic\<close>

datatype float64 = Finite rat | PosInf | NegInf | NaN

text \<open>The number of bits of a positive integer, and the powers of two.\<close>

function bitLen :: "int \<Rightarrow> int" where
  "bitLen n = (if n \<le> 0 then 0 else 1 + bitLen (n div 2))"
  by pat_completeness auto
termination
  by (relation "measure nat") auto

declare bitLen.simps [simp del]

definition pow2 :: "int \<Rightarrow> rat" where
  "pow2 e = (if 0 \<le> e then 2 ^ nat e else 1 / 2 ^ nat (- e))"

text \<open>
  For a positive \<open>x\<close>, \<open>ilog2 x\<close> is the exponent \<open>e\<close> with \<open>2^e \<le> x < 2^(e+1)\<close>.
\<close>

definition ilog2 :: "rat \<Rightarrow> int" where
  "ilog2 x = (if 1 \<le> x then bitLen \<lfloor>x\<rfloor> - 1 else - bitLen (\<lceil>1 / x\<rceil> - 1))"

text \<open>To the nearest integer, ties to the even one.\<close>

definition roundEven :: "rat \<Rightarrow> int" where
  "roundEven y =
     (let f = \<lfloor>y\<rfloor>; r = y - of_int f
      in if r < 1 / 2 then f else if 1 / 2 < r then f + 1 else if even f then f else f + 1)"

text \<open>
  The binary64 value of an exact result: the spacing of the values around \<open>x\<close> is
  \<open>2^(e-52)\<close>, where \<open>e\<close> is the exponent of \<open>x\<close> and at least \<open>-1022\<close>; \<open>x\<close> is rounded to
  a multiple of the spacing, and a result of magnitude \<open>2^1024\<close> or more is an infinity.
\<close>

definition toFloat64 :: "rat \<Rightarrow> float64" where
  "toFloat64 x =
     (if x = 0 then Finite 0
      else let e = max (ilog2 \<bar>x\<bar>) (- 1022);
               ulp = pow2 (e - 52);
               r = of_int (roundEven (x / ulp)) * ulp
           in if 1024 \<le> ilog2 \<bar>r\<bar> then (if 0 < x then PosInf else NegInf) else Finite r)"

text \<open>Division and multiplication of a \<^verbatim>\<open>float64\<close> by a finite \<^verbatim>\<open>float64\<close>.\<close>

definition fdiv :: "float64 \<Rightarrow> rat \<Rightarrow> float64" where
  "fdiv x b =
     (case x of
        Finite a \<Rightarrow>
          if b = 0 then (if a = 0 then NaN else if 0 < a then PosInf else NegInf)
          else toFloat64 (a / b)
      | PosInf \<Rightarrow> if 0 \<le> b then PosInf else NegInf
      | NegInf \<Rightarrow> if 0 \<le> b then NegInf else PosInf
      | NaN \<Rightarrow> NaN)"

definition fmul :: "float64 \<Rightarrow> rat \<Rightarrow> float64" where
  "fmul x b =
     (case x of
        Finite a \<Rightarrow> toFloat64 (a * b)
      | PosInf \<Rightarrow> if b = 0 then NaN else if 0 < b then PosInf else NegInf
      | NegInf \<Rightarrow> if b = 0 then NaN else if 0 < b then NegInf else PosInf
      | NaN \<Rightarrow> NaN)"

text \<open>
  \<^verbatim>\<open>math.Round\<close>: to the nearest integer, halves away from zero. Its result is a
  \<^verbatim>\<open>float64\<close> again; an integer nearest to a binary64 value is a binary64 value.
\<close>

definition round_half_away :: "rat \<Rightarrow> int" where
  "round_half_away x = (if 0 \<le> x then \<lfloor>x + 1 / 2\<rfloor> else - \<lfloor>- x + 1 / 2\<rfloor>)"

definition Round :: "float64 \<Rightarrow> float64" where
  "Round x = (case x of Finite a \<Rightarrow> Finite (of_int (round_half_away a)) | _ \<Rightarrow> x)"

subsection \<open>Library functions the program calls\<close>

text \<open>
  The Go standard library is not part of the repository. What the program uses of it is
  taken as a parameter, so that every theorem holds for whatever these functions do:
  \<^item> \<open>ParseFloat s\<close> is \<^verbatim>\<open>strconv.ParseFloat(s, 64)\<close>: \<open>None\<close> when it returns an error,
    and otherwise the finite value it returns (an infinity or a \<^verbatim>\<open>NaN\<close> as its result
    is not modelled);
  \<^item> \<open>ParseInt s\<close> is the value \<^verbatim>\<open>strconv.ParseInt(s, 10, 64)\<close> returns (the program
    drops its error);
  \<^item> \<open>TrimSpace\<close> is \<^verbatim>\<open>strings.TrimSpace\<close>;
  \<^item> \<open>FormatInt\<close> is the verb \<^verbatim>\<open>%d\<close> of \<^verbatim>\<open>fmt.Sprintf\<close>;
  \<^item> \<open>IntOutOfRange x\<close> is the result of the conversion \<^verbatim>\<open>int(x)\<close> when \<open>x\<close> is not
    finite or the truncated \<open>x\<close> is not a 64-bit integer. The Go specification leaves
    that result to the implementation.
\<close>

record golib =
  ParseFloat :: "string \<Rightarrow> rat option"
  ParseInt :: "string \<Rightarrow> int"
  TrimSpace :: "string \<Rightarrow> string"
  FormatInt :: "int \<Rightarrow> string"
  IntOutOfRange :: "float64 \<Rightarrow> int"

text \<open>
  The conversion \<^verbatim>\<open>int(x)\<close> of a \<^verbatim>\<open>float64\<close> truncates toward zero. When the
  truncated value is not a 64-bit integer the result is the implementation's.
\<close>

definition trunc :: "rat \<Rightarrow> int" where
  "trunc x = (if 0 \<le> x then \<lfloor>x\<rfloor> else \<lceil>x\<rceil>)"

definition fits_int64 :: "int \<Rightarrow> bool" where
  "fits_int64 z = (- (2 ^ 63) \<le> z \<and> z < 2 ^ 63)"

definition int_of_float64 :: "golib \<Rightarrow> float64 \<Rightarrow> int" where
  "int_of_float64 L x =
     (case x of
        Finite a \<Rightarrow> if fits_int64 (trunc a) then trunc a else IntOutOfRange L x
      | _ \<Rightarrow> IntOutOfRange L x)"

subsection \<open>Progress normalisation\<close>

definition progressBroadcastStep :: int where
  "progressBroadcastStep = 5"

definition clamp :: "int \<Rightarrow> int \<Rightarrow> int \<Rightarrow> int" where
  "clamp val lo hi = (if val < lo then lo else if val > hi then hi else val)"

definition progressFromTimestamp :: "golib \<Rightarrow> string \<Rightarrow> rat \<Rightarrow> rat \<Rightarrow> int" where
  "progressFromTimestamp L val durationSeconds unitsPerSecond =
     (if durationSeconds \<le> 0 \<or> unitsPerSecond \<le> 0 then 0
      else case ParseFloat L val of
        None \<Rightarrow> 0
      | Some raw \<Rightarrow>
          let seconds = fdiv (Finite raw) unitsPerSecond;
              percent = int_of_float64 L (Round (fmul (fdiv seconds durationSeconds) 100))
          in clamp percent 0 100)"

definition progressFromFrame :: "golib \<Rightarrow> string \<Rightarrow> rat \<Rightarrow> int" where
  "progressFromFrame L frameValue totalFrames =
     (if totalFrames \<le> 0 then 0
      else case ParseFloat L frameValue of
        None \<Rightarrow> 0
      | Some currentFrame \<Rightarrow>
          let percent =
                int_of_float64 L (Round (fmul (fdiv (Finite currentFrame) totalFrames) 100))
          in clamp percent 0 100)"

definition shouldEmitProgress :: "int \<Rightarrow> int \<Rightarrow> bool" where
  "shouldEmitProgress current lastReported =
     (if current \<le> lastReported then False
      else if current \<ge> 100 then True
      else current \<ge> lastReported + progressBroadcastStep)"

subsection \<open>Strings\<close>

text \<open>\<^verbatim>\<open>strings.Split(s, sep)\<close> for a separator of one byte.\<close>

fun Split :: "string \<Rightarrow> char \<Rightarrow> string list" where
  "Split [] sep = [[]]"
| "Split (c # cs) sep =
     (if c = sep then [] # Split cs sep
      else (c # hd (Split cs sep)) # tl (Split cs sep))"

text \<open>
  \<^verbatim>\<open>strings.Join\<close> for a separator of one byte. The program does not call it; it says
  what \<open>Split\<close> computes.
\<close>

fun Join :: "string list \<Rightarrow> char \<Rightarrow> string" where
  "Join [] sep = []"
| "Join [p] sep = p"
| "Join (p # q # ps) sep = p @ sep # Join (q # ps) sep"

text \<open>\<^verbatim>\<open>strings.SplitN(s, sep, 2)\<close> for a separator of one byte.\<close>

definition SplitN2 :: "string \<Rightarrow> char \<Rightarrow> string list" where
  "SplitN2 s sep =
     (if sep \<in> set s
      then [takeWhile (\<lambda>c. c \<noteq> sep) s, tl (dropWhile (\<lambda>c. c \<noteq> sep) s)]
      else [s])"

text \<open>\<^verbatim>\<open>strings.HasPrefix\<close> and \<^verbatim>\<open>strings.Contains\<close>.\<close>

fun HasPrefix :: "string \<Rightarrow> string \<Rightarrow> bool" where
  "HasPrefix s [] = True"
| "HasPrefix [] (p # ps) = False"
| "HasPrefix (c # cs) (p # ps) = (c = p \<and> HasPrefix cs ps)"

fun Contains :: "string \<Rightarrow> string \<Rightarrow> bool" where
  "Contains [] sub = (sub = [])"
| "Contains (c # cs) sub = (HasPrefix (c # cs) sub \<or> Contains cs sub)"

subsection \<open>Durations and frame counts\<close>

record ffprobeStream =
  CodecName :: string
  Width :: int
  Height :: int
  Duration :: string
  NbFrames :: string
  AvgFrameRate :: string

record ffprobeFormat =
  FormatDuration :: string
  Size :: string
  BitRate :: string

record ffprobeData =
  Format :: ffprobeFormat
  Streams :: "ffprobeStream list"

definition parseColonDuration :: "golib \<Rightarrow> string \<Rightarrow> rat" where
  "parseColonDuration L raw =
     (let parts = Split raw CHR '':'' in
      if length parts \<noteq> 3 then 0
      else case ParseFloat L (parts ! 0) of
        None \<Rightarrow> 0
      | Some hours \<Rightarrow>
          (case ParseFloat L (parts ! 1) of
            None \<Rightarrow> 0
          | Some minutes \<Rightarrow>
              (case ParseFloat L (parts ! 2) of
                None \<Rightarrow> 0
              | Some seconds \<Rightarrow> hours * 3600 + minutes * 60 + seconds)))"

definition parseDurationSeconds :: "golib \<Rightarrow> string \<Rightarrow> rat" where
  "parseDurationSeconds L raw =
     (if raw = [] then 0
      else case ParseFloat L raw of
        None \<Rightarrow> (if CHR '':'' \<in> set raw then parseColonDuration L raw else 0)
      | Some v \<Rightarrow> v)"

definition progressFromTimecode :: "golib \<Rightarrow> string \<Rightarrow> rat \<Rightarrow> int" where
  "progressFromTimecode L val durationSeconds =
     (if durationSeconds \<le> 0 then 0
      else let seconds = parseDurationSeconds L val in
        if seconds \<le> 0 then 0
        else let percent =
                   int_of_float64 L (Round (fmul (fdiv (Finite seconds) durationSeconds) 100))
             in clamp percent 0 100)"

definition parseFraction :: "golib \<Rightarrow> string \<Rightarrow> rat" where
  "parseFraction L raw =
     (if raw = [] then 0
      else if CHR ''/'' \<notin> set raw then
        (case ParseFloat L raw of None \<Rightarrow> 0 | Some v \<Rightarrow> v)
      else let parts = SplitN2 raw CHR ''/'' in
        if length parts \<noteq> 2 then 0
        else case ParseFloat L (parts ! 0) of
          None \<Rightarrow> 0
        | Some numerator \<Rightarrow>
            (case ParseFloat L (parts ! 1) of
              None \<Rightarrow> 0
            | Some denominator \<Rightarrow>
                if denominator = 0 then 0 else numerator / denominator))"

text \<open>The stream pointer of the source, which may be nil, is an option.\<close>

definition parseFrameCount :: "golib \<Rightarrow> ffprobeStream option \<Rightarrow> rat" where
  "parseFrameCount L stream =
     (case stream of
        None \<Rightarrow> 0
      | Some st \<Rightarrow>
          (case (case ParseFloat L (NbFrames st) of
                   None \<Rightarrow> None
                 | Some frames \<Rightarrow> if frames > 0 then Some frames else None) of
             Some frames \<Rightarrow> frames
           | None \<Rightarrow>
               let rate = parseFraction L (AvgFrameRate st) in
               if rate \<le> 0 then 0
               else let duration = parseDurationSeconds L (Duration st) in
                 if duration \<le> 0 then 0 else duration * rate))"

definition durationFromFrames :: "golib \<Rightarrow> string \<Rightarrow> string \<Rightarrow> rat" where
  "durationFromFrames L nbFrames avgFrameRate =
     (case ParseFloat L nbFrames of
        None \<Rightarrow> 0
      | Some frames \<Rightarrow>
          if frames \<le> 0 then 0
          else let rate = parseFraction L avgFrameRate in
            if rate \<le> 0 then 0 else frames / rate)"

definition firstVideoStream :: "ffprobeStream list \<Rightarrow> ffprobeStream option" where
  "firstVideoStream streams =
     (case filter (\<lambda>stream. Width stream > 0 \<or> Height stream > 0) streams of
        stream # _ \<Rightarrow> Some stream
      | [] \<Rightarrow> (case streams of s0 # _ \<Rightarrow> Some s0 | [] \<Rightarrow> None))"

text \<open>
  The duration and frame totals as \<^verbatim>\<open>handleConvert\<close> computes them from the probe of
  the input (lines 293 to 301 of the source).
\<close>

definition estimateDuration :: "golib \<Rightarrow> ffprobeData \<Rightarrow> rat" where
  "estimateDuration L metadata =
     (let durationSeconds = parseDurationSeconds L (FormatDuration (Format metadata));
          primaryStream = firstVideoStream (Streams metadata)
      in case primaryStream of
           None \<Rightarrow> durationSeconds
         | Some st \<Rightarrow>
             if durationSeconds \<le> 0 then
               (let d = parseDurationSeconds L (Duration st) in
                if d \<le> 0 then durationFromFrames L (NbFrames st) (AvgFrameRate st) else d)
             else durationSeconds)"

definition estimateFrames :: "golib \<Rightarrow> ffprobeData \<Rightarrow> rat" where
  "estimateFrames L metadata = parseFrameCount L (firstVideoStream (Streams metadata))"

subsection \<open>Events, the registry of running conversions, files\<close>

text \<open>
  The state the handlers share: the registry \<^verbatim>\<open>conversionManager.conversions\<close>, a map
  from file names to pointers; the \<^verbatim>\<open>conversionProcess\<close> objects the pointers refer to
  (\<open>heap\<close>, with \<open>nextAddr\<close> the next fresh address); the events broadcast through the
  socket, oldest first; the files of the downloads directory; and the processes that
  received a kill signal. The mutex of the registry makes each of \<open>store\<close>, \<open>remove\<close>
  and \<open>cancel\<close> one atomic step. Log output is not modelled, and the socket is present,
  as \<^verbatim>\<open>main\<close> sets it up.
\<close>

datatype event =
  ConversionProgress string int string bool
| ConversionError string string

record Cmd =
  Process :: "nat option"

record conversionProcess =
  cmd :: Cmd
  cancelled :: bool

record serverState =
  conversions :: "string \<rightharpoonup> nat"
  heap :: "nat \<Rightarrow> conversionProcess"
  nextAddr :: nat
  socket :: "event list"
  downloads :: "string set"
  killed :: "nat list"

definition emitProgress :: "string \<Rightarrow> int \<Rightarrow> string \<Rightarrow> bool \<Rightarrow> serverState \<Rightarrow> serverState" where
  "emitProgress fileName progress outputName completed s =
     s\<lparr>socket := socket s @ [ConversionProgress fileName (clamp progress 0 100) outputName completed]\<rparr>"

definition emitError :: "string \<Rightarrow> string \<Rightarrow> serverState \<Rightarrow> serverState" where
  "emitError fileName message s = s\<lparr>socket := socket s @ [ConversionError fileName message]\<rparr>"

definition osRemove :: "string \<Rightarrow> serverState \<Rightarrow> serverState" where
  "osRemove path s = s\<lparr>downloads := downloads s - {path}\<rparr>"

definition store :: "string \<Rightarrow> Cmd \<Rightarrow> serverState \<Rightarrow> nat \<times> serverState" where
  "store name c s =
     (nextAddr s,
      s\<lparr>heap := (heap s)(nextAddr s := \<lparr>cmd = c, cancelled = False\<rparr>),
        conversions := (conversions s)(name \<mapsto> nextAddr s),
        nextAddr := Suc (nextAddr s)\<rparr>)"

definition remove :: "string \<Rightarrow> serverState \<Rightarrow> serverState" where
  "remove name s = s\<lparr>conversions := (conversions s)(name := None)\<rparr>"

text \<open>
  \<open>cancel\<close> returns the pointer (\<open>None\<close> for nil), the flag \<open>ok\<close> and the new state.
  Whether \<^verbatim>\<open>Process.Kill\<close> succeeds is the operating system's answer, \<open>killOk\<close>.
\<close>

definition cancel :: "bool \<Rightarrow> string \<Rightarrow> serverState \<Rightarrow> nat option \<times> bool \<times> serverState" where
  "cancel killOk name s =
     (case conversions s name of
        None \<Rightarrow> (None, False, s)
      | Some proc \<Rightarrow>
          (case Process (cmd (heap s proc)) of
             None \<Rightarrow> (None, False, s)
           | Some pid \<Rightarrow>
               if \<not> killOk then (Some proc, False, s)
               else (Some proc, True,
                     s\<lparr>heap := (heap s)(proc := (heap s proc)\<lparr>cancelled := True\<rparr>),
                       conversions := (conversions s)(name := None),
                       killed := killed s @ [pid]\<rparr>)))"

text \<open>
  The handler of the socket event \<^verbatim>\<open>cancel-conversion\<close> (lines 104 to 114), when
  nothing else runs between its two steps.
\<close>

definition onCancelConversion :: "bool \<Rightarrow> string \<Rightarrow> serverState \<Rightarrow> serverState" where
  "onCancelConversion killOk fileName s =
     (if fileName = [] then s
      else case cancel killOk fileName s of
        (_, True, s') \<Rightarrow> emitError fileName ''Conversion cancelled by user'' s'
      | (_, False, s') \<Rightarrow> s')"

subsection \<open>The reader of the progress stream\<close>

text \<open>
  One case of the reader's switch: the candidate is forwarded, and remembered, when
  \<open>shouldEmitProgress\<close> says so. The state of the loop is \<open>lastReported\<close> with the
  server state.
\<close>

definition report :: "string \<Rightarrow> string \<Rightarrow> int \<Rightarrow> int \<times> serverState \<Rightarrow> int \<times> serverState" where
  "report originalName outputName currentProgress st =
     (if shouldEmitProgress currentProgress (fst st)
      then (currentProgress, emitProgress originalName currentProgress outputName False (snd st))
      else st)"

definition readLine ::
  "golib \<Rightarrow> string \<Rightarrow> string \<Rightarrow> rat \<Rightarrow> rat \<Rightarrow> string \<Rightarrow> int \<times> serverState \<Rightarrow> int \<times> serverState" where
  "readLine L originalName outputName durationSeconds totalFrames line st =
     (let parts = SplitN2 line CHR ''='' in
      if length parts \<noteq> 2 then st
      else
        let key = TrimSpace L (parts ! 0);
            val = TrimSpace L (parts ! 1)
        in if key = ''frame'' then
             report originalName outputName (progressFromFrame L val totalFrames) st
           else if key = ''out_time_ms'' then
             report originalName outputName (progressFromTimestamp L val durationSeconds 1000) st
           else if key = ''out_time_us'' then
             report originalName outputName (progressFromTimestamp L val durationSeconds 1000000) st
           else if key = ''out_time'' then
             report originalName outputName (progressFromTimecode L val durationSeconds) st
           else if key = ''progress'' then
             (if val = ''end''
              then (fst st, emitProgress originalName 100 outputName True (snd st))
              else st)
           else st)"

text \<open>
  The reader's loop on the candidates alone, and the percentages of the events the
  reader forwards (the events that are not marked completed).
\<close>

definition reportAll :: "string \<Rightarrow> string \<Rightarrow> int list \<Rightarrow> int \<times> serverState \<Rightarrow> int \<times> serverState" where
  "reportAll originalName outputName candidates st =
     foldl (\<lambda>st c. report originalName outputName c st) st candidates"

fun forwarded :: "event list \<Rightarrow> int list" where
  "forwarded [] = []"
| "forwarded (ConversionProgress f p out completed # es) =
     (if completed then forwarded es else p # forwarded es)"
| "forwarded (ConversionError f m # es) = forwarded es"

definition reader ::
  "golib \<Rightarrow> string \<Rightarrow> string \<Rightarrow> rat \<Rightarrow> rat \<Rightarrow> string list \<Rightarrow> int \<times> serverState \<Rightarrow> int \<times> serverState" where
  "reader L originalName outputName durationSeconds totalFrames lines st =
     foldl (\<lambda>st line. readLine L originalName outputName durationSeconds totalFrames line st)
       st lines"

text \<open>
  While the subprocess runs, the reader takes the lines the scanner delivers (up to the
  end of the stream or the scanner's first error), and other requests act on the
  registry. The handler of a cancellation request runs in two steps, between which the
  mutex is free: it calls \<open>cancel\<close> (unless the file name of its payload is empty), and,
  when \<open>cancel\<close> answered ok, it sends its message. \<open>CancelConversion\<close> is the first
  step, with the file name and whether the kill it may attempt succeeds;
  \<open>CancelledMessage\<close> is the second. Other conversions \<open>store\<close> and \<open>remove\<close>. An
  interleaving of these steps is a list. A handler whose second step comes after the
  conversion has answered is a \<open>CancelConversion\<close> with no \<open>CancelledMessage\<close> in the
  list. The lists of the program are those in which every \<open>CancelledMessage\<close> follows a
  \<open>CancelConversion\<close> of its file name that answered ok; what is proved for every list
  holds for them.
\<close>

datatype run_event =
  StdoutLine string
| CancelConversion string bool
| CancelledMessage string
| OtherStore string Cmd
| OtherRemove string

definition runStep ::
  "golib \<Rightarrow> string \<Rightarrow> string \<Rightarrow> rat \<Rightarrow> rat \<Rightarrow> int \<times> serverState \<Rightarrow> run_event \<Rightarrow> int \<times> serverState" where
  "runStep L originalName outputName durationSeconds totalFrames st ev =
     (case ev of
        StdoutLine line \<Rightarrow> readLine L originalName outputName durationSeconds totalFrames line st
      | CancelConversion fileName killOk \<Rightarrow>
          (fst st,
           if fileName = [] then snd st else snd (snd (cancel killOk fileName (snd st))))
      | CancelledMessage fileName \<Rightarrow>
          (fst st, emitError fileName ''Conversion cancelled by user'' (snd st))
      | OtherStore name c \<Rightarrow> (fst st, snd (store name c (snd st)))
      | OtherRemove name \<Rightarrow> (fst st, remove name (snd st)))"

subsection \<open>The outcome of a conversion\<close>

definition mapFFmpegError :: "string \<Rightarrow> string \<Rightarrow> string \<times> nat" where
  "mapFFmpegError stderr fmt =
     (if Contains stderr ''Unknown encoder'' then (''Unsupported output format: '' @ fmt, 400)
      else if Contains stderr ''Invalid data found'' then (''Invalid or corrupted video file'', 400)
      else if Contains stderr ''No space left'' then
        (''Server storage full. Please try again later.'', 500)
      else if Contains stderr ''ffmpeg version'' then (''Conversion failed'', 500)
      else if stderr \<noteq> [] then (stderr, 500)
      else (''Conversion failed'', 500))"

text \<open>
  \<open>handleConvert\<close> from line 285 on: the upload is stored at \<open>inputPath\<close>, and the names
  are chosen. What the environment answers is given with the request: the two probes
  (\<open>None\<close> for an error), whether the pipe and the start succeed, the interleaving while
  the subprocess runs, whether the subprocess left a file at \<open>outputPath\<close>, whether
  \<^verbatim>\<open>cmd.Wait\<close> returns an error, and the text the subprocess wrote to its standard error.
\<close>

record convertRequest =
  originalName :: string
  outputFormat :: string
  inputPath :: string
  outputPath :: string
  outputName :: string

datatype startResult = ErrNotFound | StartError | Started nat

record convertEnv =
  probeInput :: "ffprobeData option"
  stdoutPipeOk :: bool
  startOutcome :: startResult
  running :: "run_event list"
  outputWritten :: bool
  waitError :: bool
  stderrBuf :: string
  probeOutput :: "ffprobeData option"

record convertResponse =
  respName :: string
  respOutputName :: string
  downloadUrl :: string
  respDuration :: rat
  fileSize :: int
  resolution :: string
  codec :: string

datatype response =
  HttpError string nat
| HttpJSON nat convertResponse

definition successResponse :: "golib \<Rightarrow> convertRequest \<Rightarrow> ffprobeData \<Rightarrow> convertResponse" where
  "successResponse L req outputMetadata =
     (let stream = firstVideoStream (Streams outputMetadata) in
      \<lparr>respName = originalName req,
       respOutputName = outputName req,
       downloadUrl = ''/downloads/'' @ outputName req,
       respDuration = parseDurationSeconds L (FormatDuration (Format outputMetadata)),
       fileSize = ParseInt L (Size (Format outputMetadata)),
       resolution =
         (case stream of
            Some st \<Rightarrow>
              if Width st > 0 \<and> Height st > 0
              then FormatInt L (Width st) @ ''x'' @ FormatInt L (Height st) else []
          | None \<Rightarrow> []),
       codec = (case stream of Some st \<Rightarrow> CodecName st | None \<Rightarrow> [])\<rparr>)"

text \<open>The part after \<^verbatim>\<open>cmd.Wait\<close> and the reader have finished (lines 390 to 444).\<close>

definition conclude ::
  "golib \<Rightarrow> convertRequest \<Rightarrow> convertEnv \<Rightarrow> nat \<Rightarrow> serverState \<Rightarrow> response \<times> serverState" where
  "conclude L req env proc s0 =
     (let s = remove (originalName req) s0 in
      if cancelled (heap s proc) then
        (HttpError ''Conversion cancelled by user'' 409, osRemove (outputPath req) s)
      else if waitError env then
        (let (message, status) = mapFFmpegError (stderrBuf env) (outputFormat req);
             s1 = emitError (originalName req) message s
         in (HttpError message status, osRemove (outputPath req) s1))
      else case probeOutput env of
        None \<Rightarrow> (HttpError ''Conversion completed but metadata lookup failed'' 500, s)
      | Some outputMetadata \<Rightarrow> (HttpJSON 200 (successResponse L req outputMetadata), s))"

text \<open>
  From \<^verbatim>\<open>store\<close> to the end of \<^verbatim>\<open>cmd.Wait\<close> and of the reader (lines 335 to 389): the
  process is registered, the interleaving runs with the tracker at minus the step, and
  the subprocess has left its output file or not. The result is the pointer \<open>proc\<close> and
  the state.
\<close>

definition supervise ::
  "golib \<Rightarrow> convertRequest \<Rightarrow> convertEnv \<Rightarrow> rat \<Rightarrow> rat \<Rightarrow> nat \<Rightarrow> serverState \<Rightarrow> nat \<times> serverState" where
  "supervise L req env durationSeconds totalFrames pid s1 =
     (let (proc, s2) = store (originalName req) \<lparr>Process = Some pid\<rparr> s1;
          st = foldl (runStep L (originalName req) (outputName req) durationSeconds totalFrames)
                 (- progressBroadcastStep, s2) (running env);
          s3 = snd st
      in (proc,
          if outputWritten env
          then s3\<lparr>downloads := insert (outputPath req) (downloads s3)\<rparr> else s3))"

definition handleConvert ::
  "golib \<Rightarrow> convertRequest \<Rightarrow> convertEnv \<Rightarrow> serverState \<Rightarrow> response \<times> serverState" where
  "handleConvert L req env s =
     (case probeInput env of
        None \<Rightarrow>
          (HttpError ''Failed to analyze source file'' 500,
           osRemove (inputPath req) (osRemove (outputPath req) s))
      | Some metadata \<Rightarrow>
          let durationSeconds = estimateDuration L metadata;
              totalFrames = estimateFrames L metadata;
              s1 = emitProgress (originalName req) 0 (outputName req) False s
          in if \<not> stdoutPipeOk env then
               (HttpError ''Failed to start conversion'' 500, osRemove (inputPath req) s1)
             else case startOutcome env of
               ErrNotFound \<Rightarrow>
                 (HttpError ''FFmpeg not found. Please ensure FFmpeg is installed.'' 500,
                  osRemove (inputPath req) s1)
             | StartError \<Rightarrow>
                 (HttpError ''Failed to start conversion'' 500, osRemove (inputPath req) s1)
             | Started pid \<Rightarrow>
                 let (proc, s4) = supervise L req env durationSeconds totalFrames pid s1;
                     (resp, s5) = conclude L req env proc s4
                 in (resp, osRemove (inputPath req) s5))"

subsection \<open>A reference instance of the library\<close>

text \<open>
  The examples below are evaluated with one instance of the library functions. On the
  strings the examples use it returns what Go returns: \<open>decimalFloat\<close> reads an
  optional sign, digits and an optional fraction, and rejects every other string; the
  values of the examples are integers and binary fractions that \<^verbatim>\<open>float64\<close> holds
  exactly.
  \<open>IntOutOfRange\<close> is the result on amd64, where the conversion instruction answers
  the least 64-bit integer for every operand that is out of range or not a number.
\<close>

definition digitVal :: "char \<Rightarrow> nat option" where
  "digitVal c = map_of (zip ''0123456789'' [0, 1, 2, 3, 4, 5, 6, 7, 8, 9]) c"

fun digitsAcc :: "nat \<Rightarrow> string \<Rightarrow> nat option" where
  "digitsAcc acc [] = Some acc"
| "digitsAcc acc (c # cs) =
     (case digitVal c of None \<Rightarrow> None | Some d \<Rightarrow> digitsAcc (10 * acc + d) cs)"

definition unsignedDecimal :: "string \<Rightarrow> rat option" where
  "unsignedDecimal s =
     (let ip = takeWhile (\<lambda>c. c \<noteq> CHR ''.'') s;
          rest = dropWhile (\<lambda>c. c \<noteq> CHR ''.'') s;
          fp = (if rest = [] then [] else tl rest)
      in if ip = [] \<and> fp = [] then None
         else case digitsAcc 0 ip of
           None \<Rightarrow> None
         | Some i \<Rightarrow>
             (case digitsAcc 0 fp of
               None \<Rightarrow> None
             | Some f \<Rightarrow> Some (of_nat i + of_nat f / 10 ^ length fp)))"

definition decimalFloat :: "string \<Rightarrow> rat option" where
  "decimalFloat s =
     (case s of
        [] \<Rightarrow> None
      | c # cs \<Rightarrow>
          if c = CHR ''-'' then map_option uminus (unsignedDecimal cs)
          else if c = CHR ''+'' then unsignedDecimal cs
          else unsignedDecimal s)"

definition decimalInt :: "string \<Rightarrow> int" where
  "decimalInt s =
     (case s of
        [] \<Rightarrow> 0
      | c # cs \<Rightarrow>
          if c = CHR ''-'' then (case digitsAcc 0 cs of None \<Rightarrow> 0 | Some n \<Rightarrow> - int n)
          else if c = CHR ''+'' then (case digitsAcc 0 cs of None \<Rightarrow> 0 | Some n \<Rightarrow> int n)
          else (case digitsAcc 0 s of None \<Rightarrow> 0 | Some n \<Rightarrow> int n))"

definition isAsciiSpace :: "char \<Rightarrow> bool" where
  "isAsciiSpace c = (c \<in> set [CHR 0x09, CHR 0x0A, CHR 0x0B, CHR 0x0C, CHR 0x0D, CHR '' ''])"

definition trimAsciiSpace :: "string \<Rightarrow> string" where
  "trimAsciiSpace s = rev (dropWhile isAsciiSpace (rev (dropWhile isAsciiSpace s)))"

definition digitChar :: "nat \<Rightarrow> char" where
  "digitChar d = ''0123456789'' ! d"

fun showNat :: "nat \<Rightarrow> string" where
  "showNat n =
     (if n < 10 then [digitChar n] else showNat (n div 10) @ [digitChar (n mod 10)])"

definition showInt :: "int \<Rightarrow> string" where
  "showInt z = (if z < 0 then CHR ''-'' # showNat (nat (- z)) else showNat (nat z))"

definition goAmd64 :: golib where
  "goAmd64 =
     \<lparr>ParseFloat = decimalFloat, ParseInt = decimalInt, TrimSpace = trimAsciiSpace,
      FormatInt = showInt, IntOutOfRange = (\<lambda>x. - (2 ^ 63))\<rparr>"

subsection \<open>The claims' own notions, and what the proofs need\<close>

text \<open>
  The percentage as the specification words it: the nearest integer of the ratio times
  100 (halves away from zero), brought into \<open>[0, 100]\<close>.
\<close>

definition percent_of :: "rat \<Rightarrow> rat \<Rightarrow> int" where
  "percent_of part whole = clamp (round_half_away (part / whole * 100)) 0 100"

text \<open>
  The throttling rule in words: from the candidates, with \<open>l\<close> the tracker, those
  are forwarded that are greater than the tracker and either at least 100 or at least
  5 above it, and a forwarded candidate becomes the tracker.
\<close>

fun throttled :: "int \<Rightarrow> int list \<Rightarrow> int list" where
  "throttled l [] = []"
| "throttled l (c # cs) =
     (if l < c \<and> (100 \<le> c \<or> l + 5 \<le> c) then c # throttled c cs else throttled l cs)"

text \<open>
  An invariant of the reader's loop, over the events from position \<open>k\<close> of the socket
  on, with \<open>l0\<close> the tracker at the start: the forwarded percentages increase strictly
  from above \<open>l0\<close>, and the tracker is the last of them, or \<open>l0\<close> when there is none.
\<close>

definition tracker_inv :: "nat \<Rightarrow> int \<Rightarrow> int \<times> serverState \<Rightarrow> bool" where
  "tracker_inv k l0 st \<longleftrightarrow>
     k \<le> length (socket (snd st))
     \<and> sorted_wrt (<) (l0 # forwarded (drop k (socket (snd st))))
     \<and> fst st = last (l0 # forwarded (drop k (socket (snd st))))"

text \<open>The server with no conversion running, no event sent and no file stored.\<close>

definition idle :: serverState where
  "idle = \<lparr>conversions = Map.empty,
           heap = (\<lambda>a. \<lparr>cmd = \<lparr>Process = None\<rparr>, cancelled = False\<rparr>),
           nextAddr = 0, socket = [], downloads = {}, killed = []\<rparr>"

text \<open>
  A video stream and a probe result with that one stream, for the examples: the
  container's duration, the stream's duration, its frame count and its frame rate are
  given.
\<close>

definition streamOf :: "string \<Rightarrow> string \<Rightarrow> string \<Rightarrow> ffprobeStream" where
  "streamOf streamDuration nbFrames avgFrameRate =
     \<lparr>CodecName = ''h264'', Width = 1920, Height = 1080, Duration = streamDuration,
      NbFrames = nbFrames, AvgFrameRate = avgFrameRate\<rparr>"

definition probeOf :: "string \<Rightarrow> string \<Rightarrow> string \<Rightarrow> string \<Rightarrow> ffprobeData" where
  "probeOf containerDuration streamDuration nbFrames avgFrameRate =
     \<lparr>Format = \<lparr>FormatDuration = containerDuration, Size = ''1000'', BitRate = ''800''\<rparr>,
      Streams = [streamOf streamDuration nbFrames avgFrameRate]\<rparr>"

text \<open>The server after the conversion of \<open>a.mov\<close> was started as process 7.\<close>

definition oneJob :: serverState where
  "oneJob = snd (store ''a.mov'' \<lparr>Process = Some 7\<rparr> idle)"

text \<open>
  A request and the environment's answers, for the examples: the input probes as a
  10 second file of 300 frames, the subprocess starts as process 7 and leaves its output
  file; the interleaving, the result of \<^verbatim>\<open>cmd.Wait\<close>, the error text and the probe of the
  output are given.
\<close>

definition sampleRequest :: convertRequest where
  "sampleRequest =
     \<lparr>originalName = ''a.mov'', outputFormat = ''mp4'', inputPath = ''downloads/in-a.mov'',
      outputPath = ''downloads/out.mp4'', outputName = ''out.mp4''\<rparr>"

definition envOf :: "run_event list \<Rightarrow> bool \<Rightarrow> string \<Rightarrow> ffprobeData option \<Rightarrow> convertEnv" where
  "envOf evs failed errText outputProbe =
     \<lparr>probeInput = Some (probeOf ''10'' ''10'' ''300'' ''30/1''), stdoutPipeOk = True,
      startOutcome = Started 7, running = evs, outputWritten = True, waitError = failed,
      stderrBuf = errText, probeOutput = outputProbe\<rparr>"

section \<open>Theorems\<close>

lemmas goAmd64_eval = goAmd64_def decimalFloat_def unsignedDecimal_def digitVal_def
  decimalInt_def trimAsciiSpace_def isAsciiSpace_def showInt_def digitChar_def

subsection \<open>Percentages\<close>

lemma clamp_0_100: "0 \<le> clamp v 0 100 \<and> clamp v 0 100 \<le> 100"
  by (simp add: clamp_def)

lemma clamp_id: "0 \<le> c \<Longrightarrow> c \<le> 100 \<Longrightarrow> clamp c 0 100 = c"
  by (simp add: clamp_def)

lemma trunc_of_int: "trunc (of_int z) = z"
  by (simp add: trunc_def)

lemma int_of_float64_Round:
  "fits_int64 (round_half_away q) \<Longrightarrow> int_of_float64 L (Round (Finite q)) = round_half_away q"
  by (simp add: int_of_float64_def Round_def trunc_of_int)

text \<open>
  Each progress function returns an integer between 0 and 100, for every raw string,
  every total and whatever the library functions do, and 0 when a total is not positive
  or the raw value does not parse.
\<close>

lemma progressFromFrame_range:
  "0 \<le> progressFromFrame L v t \<and> progressFromFrame L v t \<le> 100"
  by (simp add: progressFromFrame_def Let_def clamp_0_100 split: option.split)

lemma progressFromTimestamp_range:
  "0 \<le> progressFromTimestamp L v d u \<and> progressFromTimestamp L v d u \<le> 100"
  by (simp add: progressFromTimestamp_def Let_def clamp_0_100 split: option.split)

lemma progressFromTimecode_range:
  "0 \<le> progressFromTimecode L v d \<and> progressFromTimecode L v d \<le> 100"
  by (simp add: progressFromTimecode_def Let_def clamp_0_100)

lemma progressFromFrame_zero:
  "t \<le> 0 \<or> ParseFloat L v = None \<Longrightarrow> progressFromFrame L v t = 0"
  by (auto simp: progressFromFrame_def)

lemma progressFromTimestamp_zero:
  "d \<le> 0 \<or> u \<le> 0 \<or> ParseFloat L v = None \<Longrightarrow> progressFromTimestamp L v d u = 0"
  by (auto simp: progressFromTimestamp_def)

text \<open>
  Otherwise the result is the binary64 value of the ratio times 100, rounded to an
  integer and brought into \<open>[0, 100]\<close>, as long as the rounded value is a 64-bit
  integer.
\<close>

lemma progressFromFrame_finite:
  "0 < t \<Longrightarrow> ParseFloat L v = Some cur \<Longrightarrow> fmul (fdiv (Finite cur) t) 100 = Finite q
   \<Longrightarrow> fits_int64 (round_half_away q)
   \<Longrightarrow> progressFromFrame L v t = clamp (round_half_away q) 0 100"
  by (simp add: progressFromFrame_def int_of_float64_Round)

lemma progressFromTimestamp_finite:
  "0 < d \<Longrightarrow> 0 < u \<Longrightarrow> ParseFloat L v = Some raw
   \<Longrightarrow> fmul (fdiv (fdiv (Finite raw) u) d) 100 = Finite q
   \<Longrightarrow> fits_int64 (round_half_away q)
   \<Longrightarrow> progressFromTimestamp L v d u = clamp (round_half_away q) 0 100"
  by (simp add: progressFromTimestamp_def int_of_float64_Round)

text \<open>
  With a value that is not a 64-bit integer the clamp is applied to what the
  implementation answers.
\<close>

lemma progressFromFrame_out_of_range:
  "0 < t \<Longrightarrow> ParseFloat L v = Some cur \<Longrightarrow> fmul (fdiv (Finite cur) t) 100 = Finite q
   \<Longrightarrow> \<not> fits_int64 (round_half_away q)
   \<Longrightarrow> progressFromFrame L v t = clamp (IntOutOfRange L (Finite (of_int (round_half_away q)))) 0 100"
  by (simp add: progressFromFrame_def int_of_float64_def Round_def trunc_of_int)

lemma progressFromTimestamp_out_of_range:
  "0 < d \<Longrightarrow> 0 < u \<Longrightarrow> ParseFloat L v = Some raw
   \<Longrightarrow> fmul (fdiv (fdiv (Finite raw) u) d) 100 = Finite q
   \<Longrightarrow> \<not> fits_int64 (round_half_away q)
   \<Longrightarrow> progressFromTimestamp L v d u
       = clamp (IntOutOfRange L (Finite (of_int (round_half_away q)))) 0 100"
  by (simp add: progressFromTimestamp_def int_of_float64_def Round_def trunc_of_int)

text \<open>
  The percentages of frame 149 of 300, of 4.9 seconds and of a negative time of a
  10 second input, and of a frame beyond the total.
\<close>

lemma progress_examples:
  "progressFromFrame goAmd64 ''n/a'' 300 = 0"
  "progressFromTimestamp goAmd64 ''4900'' 0 1000 = 0"
  "progressFromFrame goAmd64 ''149'' 300 = 50"
  "progressFromTimestamp goAmd64 ''-4900000'' 10 1000000 = 0"
  "progressFromFrame goAmd64 ''900'' 300 = 100"
proof -
  have p: "ParseFloat goAmd64 ''n/a'' = None" "ParseFloat goAmd64 ''149'' = Some 149"
    "ParseFloat goAmd64 ''-4900000'' = Some (- 4900000)" "ParseFloat goAmd64 ''900'' = Some 900"
    by (simp_all add: goAmd64_eval)
  have f1: "fmul (fdiv (Finite 149) 300) 100 = Finite (6989961921647957 / 140737488355328)"
    by code_simp
  have f2: "fmul (fdiv (fdiv (Finite (- 4900000)) 1000000) 10) 100
            = Finite (- (6896136929411073 / 140737488355328))"
    by code_simp
  have f3: "fmul (fdiv (Finite 900) 300) 100 = Finite 300"
    by code_simp
  have r: "round_half_away (6989961921647957 / 140737488355328) = 50"
    "round_half_away (- (6896136929411073 / 140737488355328)) = - 49"
    "round_half_away 300 = 300"
    by (simp_all add: round_half_away_def floor_eq_iff)
  have fits: "fits_int64 50" "fits_int64 (- 49)" "fits_int64 300"
    by (simp_all add: fits_int64_def)
  show "progressFromFrame goAmd64 ''n/a'' 300 = 0"
    using p by (simp add: progressFromFrame_zero)
  show "progressFromTimestamp goAmd64 ''4900'' 0 1000 = 0"
    by (simp add: progressFromTimestamp_zero)
  show "progressFromFrame goAmd64 ''149'' 300 = 50"
    using progressFromFrame_finite [of 300 goAmd64 "''149''" 149, OF _ _ f1] p r fits
    by (simp add: clamp_def)
  show "progressFromTimestamp goAmd64 ''-4900000'' 10 1000000 = 0"
    using progressFromTimestamp_finite [of 10 1000000 goAmd64 "''-4900000''" "- 4900000",
        OF _ _ _ f2] p r fits
    by (simp add: clamp_def)
  show "progressFromFrame goAmd64 ''900'' 300 = 100"
    using progressFromFrame_finite [of 300 goAmd64 "''900''" 900, OF _ _ f3] p r fits
    by (simp add: clamp_def)
qed

text \<open>
  The quotients and products are those of binary64, not the exact ones: frame 29 of 200
  is 14.5 percent exactly, the binary64 product is just below it, and the result is 14
  where the exact ratio rounds to 15; likewise 1450 milliseconds of 10 seconds.
\<close>

lemma progress_binary64_examples:
  "fmul (fdiv (Finite 29) 200) 100 = Finite (8162774324609023 / 562949953421312)"
  "progressFromFrame goAmd64 ''29'' 200 = 14"
  "progressFromTimestamp goAmd64 ''1450'' 10 1000 = 14"
  "percent_of 29 200 = 15"
proof -
  have p: "ParseFloat goAmd64 ''29'' = Some 29" "ParseFloat goAmd64 ''1450'' = Some 1450"
    by (simp_all add: goAmd64_eval)
  show f1: "fmul (fdiv (Finite 29) 200) 100 = Finite (8162774324609023 / 562949953421312)"
    by code_simp
  have f2: "fmul (fdiv (fdiv (Finite 1450) 1000) 10) 100
            = Finite (8162774324609023 / 562949953421312)"
    by code_simp
  have r: "round_half_away (8162774324609023 / 562949953421312) = 14"
    by (simp add: round_half_away_def floor_eq_iff)
  have fits: "fits_int64 14"
    by (simp add: fits_int64_def)
  show "progressFromFrame goAmd64 ''29'' 200 = 14"
    using progressFromFrame_finite [of 200 goAmd64 "''29''" 29, OF _ _ f1] p r fits
    by (simp add: clamp_def)
  show "progressFromTimestamp goAmd64 ''1450'' 10 1000 = 14"
    using progressFromTimestamp_finite [of 10 1000 goAmd64 "''1450''" 1450, OF _ _ _ f2] p r fits
    by (simp add: clamp_def)
  have "round_half_away (29 / 200 * 100) = 15"
    by (simp add: round_half_away_def floor_eq_iff)
  then show "percent_of 29 200 = 15"
    unfolding percent_of_def by (simp add: clamp_def)
qed

text \<open>
  Claim C1. The clamp to \<open>[0, 100]\<close> comes after the conversion of the rounded
  \<^verbatim>\<open>float64\<close> to \<^verbatim>\<open>int\<close>, and a rounded value that is not a 64-bit integer does not
  survive that conversion. With one frame in total and a frame value of \<open>10^19\<close> the
  ratio times 100 is \<open>10^21\<close>, in binary64 as well, which amd64 converts to the least
  64-bit integer: the function answers 0 where the rounded ratio, clamped, is 100. The
  timestamp kind does the same at \<open>10^22\<close> milliseconds of a one second input.
\<close>

theorem progress_clamp_after_conversion:
  "ParseFloat goAmd64 ''10000000000000000000'' = Some 10000000000000000000
   \<and> fmul (fdiv (Finite 10000000000000000000) 1) 100 = Finite 1000000000000000000000
   \<and> progressFromFrame goAmd64 ''10000000000000000000'' 1 = 0
   \<and> percent_of 10000000000000000000 1 = 100
   \<and> ParseFloat goAmd64 ''10000000000000000000000'' = Some 10000000000000000000000
   \<and> fmul (fdiv (fdiv (Finite 10000000000000000000000) 1000) 1) 100
       = Finite 1000000000000000000000
   \<and> progressFromTimestamp goAmd64 ''10000000000000000000000'' 1 1000 = 0
   \<and> percent_of (10000000000000000000000 / 1000) 1 = 100"
proof -
  have p1: "ParseFloat goAmd64 ''10000000000000000000'' = Some 10000000000000000000"
    by (simp add: goAmd64_eval)
  have p2: "ParseFloat goAmd64 ''10000000000000000000000'' = Some 10000000000000000000000"
    by (simp add: goAmd64_eval)
  have f1: "fmul (fdiv (Finite 10000000000000000000) 1) 100 = Finite 1000000000000000000000"
    by code_simp
  have f2: "fmul (fdiv (fdiv (Finite 10000000000000000000000) 1000) 1) 100
       = Finite 1000000000000000000000"
    by code_simp
  have r: "round_half_away 1000000000000000000000 = 1000000000000000000000"
    by (simp add: round_half_away_def floor_eq_iff)
  have big: "\<not> fits_int64 1000000000000000000000"
    by (simp add: fits_int64_def)
  have least: "IntOutOfRange goAmd64 x = - (2 ^ 63)" for x
    by (simp add: goAmd64_def)
  have v1: "progressFromFrame goAmd64 ''10000000000000000000'' 1 = 0"
    using progressFromFrame_out_of_range [of 1 goAmd64 "''10000000000000000000''"
        10000000000000000000, OF _ p1 f1] r big
    by (simp add: least clamp_def)
  have v2: "progressFromTimestamp goAmd64 ''10000000000000000000000'' 1 1000 = 0"
    using progressFromTimestamp_out_of_range [of 1 1000 goAmd64 "''10000000000000000000000''"
        10000000000000000000000, OF _ _ p2 f2] r big
    by (simp add: least clamp_def)
  have "round_half_away (10000000000000000000 / 1 * 100) = 1000000000000000000000"
    by (simp add: round_half_away_def floor_eq_iff)
  then have w1: "percent_of 10000000000000000000 1 = 100"
    unfolding percent_of_def by (simp add: clamp_def)
  have "round_half_away (10000000000000000000000 / 1000 / 1 * 100) = 1000000000000000000000"
    by (simp add: round_half_away_def floor_eq_iff)
  then have w2: "percent_of (10000000000000000000000 / 1000) 1 = 100"
    unfolding percent_of_def by (simp add: clamp_def)
  from p1 p2 f1 f2 v1 v2 w1 w2 show ?thesis by simp
qed

subsection \<open>Throttling\<close>

lemma shouldEmitProgress_iff:
  "shouldEmitProgress c l \<longleftrightarrow> l < c \<and> (100 \<le> c \<or> l + 5 \<le> c)"
  by (auto simp: shouldEmitProgress_def progressBroadcastStep_def)

lemma forwarded_append: "forwarded (xs @ ys) = forwarded xs @ forwarded ys"
  by (induction xs rule: forwarded.induct) auto

lemma forwarded_progress:
  "forwarded (map (\<lambda>p. ConversionProgress n (f p) out False) ps) = map f ps"
  by (induction ps) simp_all

lemma socket_emitProgress:
  "socket (emitProgress n p out b s) = socket s @ [ConversionProgress n (clamp p 0 100) out b]"
  by (simp add: emitProgress_def)

lemma report_rule:
  "report n out c (l, s) =
     (if l < c \<and> (100 \<le> c \<or> l + 5 \<le> c) then (c, emitProgress n c out False s) else (l, s))"
  by (simp add: report_def shouldEmitProgress_iff)

lemma readLine_dispatch:
  assumes "SplitN2 line CHR ''='' = [k, v]"
  shows "readLine L n out d t line st =
     (if TrimSpace L k = ''frame'' then
        report n out (progressFromFrame L (TrimSpace L v) t) st
      else if TrimSpace L k = ''out_time_ms'' then
        report n out (progressFromTimestamp L (TrimSpace L v) d 1000) st
      else if TrimSpace L k = ''out_time_us'' then
        report n out (progressFromTimestamp L (TrimSpace L v) d 1000000) st
      else if TrimSpace L k = ''out_time'' then
        report n out (progressFromTimecode L (TrimSpace L v) d) st
      else if TrimSpace L k = ''progress'' \<and> TrimSpace L v = ''end'' then
        (fst st, emitProgress n 100 out True (snd st))
      else st)"
  using assms by (simp add: readLine_def Let_def)

lemma readLine_other:
  "length (SplitN2 line CHR ''='') \<noteq> 2 \<Longrightarrow> readLine L n out d t line st = st"
  by (simp add: readLine_def Let_def)

lemma reader_Nil: "reader L n out d t [] st = st"
  by (simp add: reader_def)

lemma reader_Cons:
  "reader L n out d t (line # ls) st = reader L n out d t ls (readLine L n out d t line st)"
  by (simp add: reader_def)

lemma reportAll_Cons:
  "reportAll n out (c # cs) st = reportAll n out cs (report n out c st)"
  by (simp add: reportAll_def)

text \<open>The reader on candidates forwards what the rule in words selects.\<close>

lemma reportAll_throttled:
  "reportAll n out cs (l, s) =
     (last (l # throttled l cs),
      s\<lparr>socket := socket s
           @ map (\<lambda>p. ConversionProgress n (clamp p 0 100) out False) (throttled l cs)\<rparr>)"
proof (induction cs arbitrary: l s)
  case Nil
  then show ?case by (simp add: reportAll_def)
next
  case (Cons c cs)
  show ?case
  proof (cases "l < c \<and> (100 \<le> c \<or> l + 5 \<le> c)")
    case True
    then have r: "report n out c (l, s) = (c, emitProgress n c out False s)"
      and t: "throttled l (c # cs) = c # throttled c cs"
      by (simp_all add: report_rule)
    show ?thesis
      unfolding reportAll_Cons r t Cons.IH [of c "emitProgress n c out False s"]
      by (simp add: emitProgress_def)
  next
    case False
    then have r: "report n out c (l, s) = (l, s)"
      and t: "throttled l (c # cs) = throttled l cs"
      by (auto simp: report_rule)
    show ?thesis
      unfolding reportAll_Cons r t by (rule Cons.IH)
  qed
qed

lemma throttled_sorted: "sorted_wrt (<) (l # throttled l cs)"
proof (induction cs arbitrary: l)
  case Nil
  then show ?case by simp
next
  case (Cons c cs)
  show ?case
  proof (cases "l < c \<and> (100 \<le> c \<or> l + 5 \<le> c)")
    case True
    have "sorted_wrt (<) (c # throttled c cs)" by (rule Cons.IH)
    then show ?thesis using True by auto
  next
    case False
    then have "throttled l (c # cs) = throttled l cs" by auto
    then show ?thesis using Cons.IH [of l] by simp
  qed
qed

lemma throttled_100:
  "\<forall>c \<in> set cs. c \<le> 100 \<Longrightarrow> 100 \<in> set cs \<Longrightarrow> l < 100 \<Longrightarrow> 100 \<in> set (throttled l cs)"
proof (induction cs arbitrary: l)
  case Nil
  then show ?case by simp
next
  case (Cons c cs)
  show ?case
  proof (cases "c = 100")
    case True
    then show ?thesis using Cons.prems(3) by simp
  next
    case False
    then have c: "c < 100" "100 \<in> set cs" "\<forall>c \<in> set cs. c \<le> 100"
      using Cons.prems by auto
    show ?thesis
      using Cons.IH [OF c(3) c(2) c(1)] Cons.IH [OF c(3) c(2) Cons.prems(3)] by simp
  qed
qed

lemma reportAll_forwarded:
  assumes "\<forall>c \<in> set cs. 0 \<le> c \<and> c \<le> 100"
  shows "forwarded (drop (length (socket s)) (socket (snd (reportAll n out cs (l, s)))))
         = throttled l cs"
proof -
  have sub: "set (throttled l cs) \<subseteq> set cs" for l
    by (induction cs arbitrary: l) auto
  have "map (\<lambda>p. clamp p 0 100) (throttled l cs) = throttled l cs"
    using assms sub [of l] by (auto simp: clamp_id intro!: map_idI)
  then show ?thesis
    by (simp add: reportAll_throttled forwarded_progress)
qed

text \<open>The reader on lines.\<close>

lemma sorted_last: "sorted_wrt (<) (xs :: int list) \<Longrightarrow> x \<in> set xs \<Longrightarrow> x \<le> last xs"
  by (induction xs) (auto simp: less_imp_le)

lemma report_tracker:
  assumes "tracker_inv k l0 st" "0 \<le> c" "c \<le> 100"
  shows "tracker_inv k l0 (report n out c st)"
proof (cases "shouldEmitProgress c (fst st)")
  case False
  then show ?thesis using assms by (simp add: report_def)
next
  case True
  let ?old = "forwarded (drop k (socket (snd st)))"
  have lt: "fst st < c" using True by (simp add: shouldEmitProgress_iff)
  have k: "k \<le> length (socket (snd st))" using assms(1) by (simp add: tracker_inv_def)
  have new: "forwarded (drop k (socket (snd (report n out c st)))) = ?old @ [c]"
    using True k assms(2,3)
    by (simp add: report_def socket_emitProgress forwarded_append clamp_id)
  have sorted: "sorted_wrt (<) (l0 # ?old)" and tr: "fst st = last (l0 # ?old)"
    using assms(1) by (simp_all add: tracker_inv_def)
  have below: "x < c" if "x \<in> set (l0 # ?old)" for x
    using sorted_last [OF sorted that] tr lt by simp
  have "sorted_wrt (<) ((l0 # ?old) @ [c])"
    unfolding sorted_wrt_append using sorted below by simp
  then have "sorted_wrt (<) (l0 # ?old @ [c])" by simp
  moreover have "fst (report n out c st) = last (l0 # ?old @ [c])"
    using True by (simp add: report_def)
  moreover have "k \<le> length (socket (snd (report n out c st)))"
    using k True by (simp add: report_def socket_emitProgress)
  ultimately show ?thesis
    unfolding tracker_inv_def new by simp
qed

lemma emit_completed_tracker:
  "tracker_inv k l0 st \<Longrightarrow> tracker_inv k l0 (fst st, emitProgress n p out True (snd st))"
  by (simp add: tracker_inv_def socket_emitProgress forwarded_append)

lemma readLine_tracker:
  assumes "tracker_inv k l0 st"
  shows "tracker_inv k l0 (readLine L n out d t line st)"
  using assms progressFromFrame_range progressFromTimestamp_range progressFromTimecode_range
  by (simp add: readLine_def Let_def report_tracker emit_completed_tracker)

lemma reader_tracker:
  "tracker_inv k l0 st \<Longrightarrow> tracker_inv k l0 (reader L n out d t ls st)"
  unfolding reader_def
  by (induction ls arbitrary: st) (simp_all add: readLine_tracker)

lemma reader_from_start:
  "tracker_inv (length (socket s)) l (reader L n out d t ls (l, s))"
  using reader_tracker [of "length (socket s)" l "(l, s)" L n out d t ls]
  by (simp add: tracker_inv_def)

lemma run_lines:
  "foldl (runStep L n out d t) st (map StdoutLine ls) = reader L n out d t ls st"
  unfolding reader_def
  by (induction ls arbitrary: st) (simp_all add: runStep_def)

lemma supervise_lines:
  assumes "running env = map StdoutLine ls"
  shows "socket (snd (supervise L req env d t pid s1)) =
     socket (snd (reader L (originalName req) (outputName req) d t ls
       (- progressBroadcastStep, snd (store (originalName req) \<lparr>Process = Some pid\<rparr> s1))))"
  using assms by (simp add: supervise_def Let_def split_beta run_lines)

subsection \<open>Splitting\<close>

text \<open>
  \<open>Split\<close> cuts a string at every separator: joining the parts gives the string back, no
  part holds the separator, and there is one part more than separators. With a
  separator in the string, \<open>SplitN2\<close> cuts at the first one.
\<close>

lemma Split_nonempty: "Split s sep \<noteq> []"
  by (induction s) auto

lemma Split_length: "length (Split s sep) = Suc (length (filter (\<lambda>c. c = sep) s))"
  using Split_nonempty [of _ sep] by (induction s) auto

lemma Split_parts: "p \<in> set (Split s sep) \<Longrightarrow> sep \<notin> set p"
proof (induction s arbitrary: p)
  case Nil
  then show ?case by simp
next
  case (Cons c cs)
  obtain q qs where split: "Split cs sep = q # qs"
    using Split_nonempty [of cs sep] by (cases "Split cs sep") auto
  show ?case
  proof (cases "c = sep")
    case True
    then show ?thesis using Cons by auto
  next
    case False
    then have "p = c # q \<or> p \<in> set qs" using Cons.prems split by auto
    then show ?thesis using Cons.IH [of q] Cons.IH [of p] split False by auto
  qed
qed

lemma Join_Split: "Join (Split s sep) sep = s"
proof (induction s)
  case Nil
  then show ?case by simp
next
  case (Cons c cs)
  obtain q qs where split: "Split cs sep = q # qs"
    using Split_nonempty [of cs sep] by (cases "Split cs sep") auto
  show ?case
  proof (cases "c = sep")
    case True
    then show ?thesis using Cons split by simp
  next
    case False
    then show ?thesis using Cons split by (cases qs) auto
  qed
qed

subsection \<open>Durations\<close>












subsection \<open>Estimates\<close>



lemma SplitN2_present:
  "sep \<in> set s \<Longrightarrow> \<exists>a b. SplitN2 s sep = [a, b] \<and> s = a @ sep # b \<and> sep \<notin> set a"
proof -
  assume "sep \<in> set s"
  then have "dropWhile (\<lambda>c. c \<noteq> sep) s \<noteq> []" by simp
  moreover have "hd (dropWhile (\<lambda>c. c \<noteq> sep) s) = sep"
    using calculation hd_dropWhile [of "\<lambda>c. c \<noteq> sep" s] by simp
  ultimately have "dropWhile (\<lambda>c. c \<noteq> sep) s = sep # tl (dropWhile (\<lambda>c. c \<noteq> sep) s)"
    by (metis list.collapse)
  then have "s = takeWhile (\<lambda>c. c \<noteq> sep) s @ sep # tl (dropWhile (\<lambda>c. c \<noteq> sep) s)"
    by (metis takeWhile_dropWhile_id)
  moreover have "sep \<notin> set (takeWhile (\<lambda>c. c \<noteq> sep) s)"
    by (auto dest: set_takeWhileD)
  ultimately show ?thesis
    using \<open>sep \<in> set s\<close> by (auto simp: SplitN2_def)
qed





lemma estimateDuration_container:
  "0 < parseDurationSeconds L (FormatDuration (Format md))
   \<Longrightarrow> estimateDuration L md = parseDurationSeconds L (FormatDuration (Format md))"
  by (simp add: estimateDuration_def Let_def split: option.split)







lemma firstVideoStream_probeOf:
  "firstVideoStream (Streams (probeOf cd sd nb fr)) = Some (streamOf sd nb fr)"
  by (simp add: probeOf_def streamOf_def firstVideoStream_def)

lemma FormatDuration_probeOf: "FormatDuration (Format (probeOf cd sd nb fr)) = cd"
  by (simp add: probeOf_def)

lemma streamOf_fields:
  "Duration (streamOf sd nb fr) = sd" "NbFrames (streamOf sd nb fr) = nb"
  "AvgFrameRate (streamOf sd nb fr) = fr"
  by (simp_all add: streamOf_def)


lemma parseFrameCount_reported:
  "ParseFloat L (NbFrames st) = Some f \<Longrightarrow> 0 < f \<Longrightarrow> parseFrameCount L (Some st) = f"
  by (simp add: parseFrameCount_def)




subsection \<open>The registry\<close>

lemma cancel_absent:
  "conversions s name = None \<Longrightarrow> cancel killOk name s = (None, False, s)"
  by (simp add: cancel_def)

lemma cancel_no_handle:
  "conversions s name = Some p \<Longrightarrow> Process (cmd (heap s p)) = None
   \<Longrightarrow> cancel killOk name s = (None, False, s)"
  by (simp add: cancel_def)

lemma cancel_kill_failed:
  "conversions s name = Some p \<Longrightarrow> Process (cmd (heap s p)) = Some pid
   \<Longrightarrow> cancel False name s = (Some p, False, s)"
  by (simp add: cancel_def)

lemma cancel_killed:
  "conversions s name = Some p \<Longrightarrow> Process (cmd (heap s p)) = Some pid
   \<Longrightarrow> cancel True name s =
       (Some p, True,
        s\<lparr>heap := (heap s)(p := (heap s p)\<lparr>cancelled := True\<rparr>),
          conversions := (conversions s)(name := None),
          killed := killed s @ [pid]\<rparr>)"
  by (simp add: cancel_def)

lemma cancel_ok_iff:
  "fst (snd (cancel killOk name s)) \<longleftrightarrow>
     killOk \<and> (\<exists>p pid. conversions s name = Some p \<and> Process (cmd (heap s p)) = Some pid)"
  by (auto simp: cancel_def split: option.split)

lemma cancel_changes_only_on_ok:
  "\<not> fst (snd (cancel killOk name s)) \<Longrightarrow> snd (snd (cancel killOk name s)) = s"
  by (auto simp: cancel_def split: option.splits if_splits)

text \<open>
  Claim C6. \<open>cancel\<close> answers not-ok and leaves the whole state as it is when the
  registry has no entry for the key, or the entry's process has no handle; so it does
  for a job that has completed and was removed. When the kill signal fails it returns
  the entry, not-ok, and again leaves the state as it is: the entry stays registered
  and its flag is unchanged. When the signal is delivered it returns the entry and ok,
  sets the entry's flag and removes the entry from the table, and changes nothing else
  but the record of the signal. The state changes only when the answer is ok.
\<close>

theorem registry_cancel:
  "(conversions s name = None
      \<or> (\<exists>p. conversions s name = Some p \<and> Process (cmd (heap s p)) = None) \<longrightarrow>
    cancel killOk name s = (None, False, s))
   \<and> cancel killOk name (remove name s) = (None, False, remove name s)
   \<and> (conversions s name = Some p \<and> Process (cmd (heap s p)) = Some pid \<longrightarrow>
        cancel False name s = (Some p, False, s))
   \<and> (conversions s name = Some p \<and> Process (cmd (heap s p)) = Some pid \<longrightarrow>
        fst (cancel True name s) = Some p
        \<and> fst (snd (cancel True name s))
        \<and> cancelled (heap (snd (snd (cancel True name s))) p)
        \<and> conversions (snd (snd (cancel True name s))) name = None
        \<and> (\<forall>k. k \<noteq> name \<longrightarrow>
              conversions (snd (snd (cancel True name s))) k = conversions s k)
        \<and> (\<forall>q. q \<noteq> p \<longrightarrow> heap (snd (snd (cancel True name s))) q = heap s q)
        \<and> cmd (heap (snd (snd (cancel True name s))) p) = cmd (heap s p)
        \<and> killed (snd (snd (cancel True name s))) = killed s @ [pid]
        \<and> socket (snd (snd (cancel True name s))) = socket s
        \<and> downloads (snd (snd (cancel True name s))) = downloads s
        \<and> nextAddr (snd (snd (cancel True name s))) = nextAddr s)
   \<and> (\<not> fst (snd (cancel killOk name s)) \<longrightarrow> snd (snd (cancel killOk name s)) = s)
   \<and> (fst (snd (cancel killOk name s)) \<longleftrightarrow>
        killOk \<and> (\<exists>p pid. conversions s name = Some p \<and> Process (cmd (heap s p)) = Some pid))"
proof (intro conjI impI)
  show "cancel killOk name s = (None, False, s)"
    if "conversions s name = None
        \<or> (\<exists>p. conversions s name = Some p \<and> Process (cmd (heap s p)) = None)"
    using that cancel_absent cancel_no_handle by blast
  show "cancel killOk name (remove name s) = (None, False, remove name s)"
    by (rule cancel_absent) (simp add: remove_def)
  show "cancel False name s = (Some p, False, s)"
    if "conversions s name = Some p \<and> Process (cmd (heap s p)) = Some pid"
    using that by (simp add: cancel_kill_failed)
  assume h: "conversions s name = Some p \<and> Process (cmd (heap s p)) = Some pid"
  note k = cancel_killed [OF conjunct1 [OF h] conjunct2 [OF h]]
  show "fst (cancel True name s) = Some p" by (simp add: k)
  show "fst (snd (cancel True name s))" by (simp add: k)
  show "cancelled (heap (snd (snd (cancel True name s))) p)" by (simp add: k)
  show "conversions (snd (snd (cancel True name s))) name = None" by (simp add: k)
  show "\<forall>k. k \<noteq> name \<longrightarrow> conversions (snd (snd (cancel True name s))) k = conversions s k"
    by (simp add: k)
  show "\<forall>q. q \<noteq> p \<longrightarrow> heap (snd (snd (cancel True name s))) q = heap s q" by (simp add: k)
  show "cmd (heap (snd (snd (cancel True name s))) p) = cmd (heap s p)" by (simp add: k)
  show "killed (snd (snd (cancel True name s))) = killed s @ [pid]" by (simp add: k)
  show "socket (snd (snd (cancel True name s))) = socket s" by (simp add: k)
  show "downloads (snd (snd (cancel True name s))) = downloads s" by (simp add: k)
  show "nextAddr (snd (snd (cancel True name s))) = nextAddr s" by (simp add: k)
next
  show "snd (snd (cancel killOk name s)) = s" if "\<not> fst (snd (cancel killOk name s))"
    using that by (rule cancel_changes_only_on_ok)
next
  show "fst (snd (cancel killOk name s)) \<longleftrightarrow>
     killOk \<and> (\<exists>p pid. conversions s name = Some p \<and> Process (cmd (heap s p)) = Some pid)"
    by (rule cancel_ok_iff)
qed


lemma oneJob_entry:
  "conversions oneJob ''a.mov'' = Some 0" "Process (cmd (heap oneJob 0)) = Some 7"
  "killed oneJob = []" "conversions idle ''a.mov'' = None"
  by (simp_all add: oneJob_def store_def idle_def)

text \<open>
  The theorem on the idle server, on a registered command that was never started, and
  on the running job of \<open>a.mov\<close>: a failed kill, a delivered kill, and a request after
  the job was removed.
\<close>

theorem registry_cancel_witness:
  "cancel True ''a.mov'' idle = (None, False, idle)
   \<and> cancel True ''b.mov'' (snd (store ''b.mov'' \<lparr>Process = None\<rparr> idle))
       = (None, False, snd (store ''b.mov'' \<lparr>Process = None\<rparr> idle))
   \<and> cancel False ''a.mov'' oneJob = (Some 0, False, oneJob)
   \<and> fst (cancel True ''a.mov'' oneJob) = Some 0
   \<and> fst (snd (cancel True ''a.mov'' oneJob))
   \<and> cancelled (heap (snd (snd (cancel True ''a.mov'' oneJob))) 0)
   \<and> conversions (snd (snd (cancel True ''a.mov'' oneJob))) ''a.mov'' = None
   \<and> killed (snd (snd (cancel True ''a.mov'' oneJob))) = [7]
   \<and> cancel True ''a.mov'' (remove ''a.mov'' oneJob) = (None, False, remove ''a.mov'' oneJob)"
proof -
  have unstarted:
    "conversions (snd (store ''b.mov'' \<lparr>Process = None\<rparr> idle)) ''b.mov'' = Some 0"
    "Process (cmd (heap (snd (store ''b.mov'' \<lparr>Process = None\<rparr> idle)) 0)) = None"
    by (simp_all add: store_def idle_def)
  have a: "cancel True ''a.mov'' idle = (None, False, idle)"
    using registry_cancel [of idle "''a.mov''" True 0 0] oneJob_entry by simp
  have b: "cancel True ''b.mov'' (snd (store ''b.mov'' \<lparr>Process = None\<rparr> idle))
       = (None, False, snd (store ''b.mov'' \<lparr>Process = None\<rparr> idle))"
    using registry_cancel [of "snd (store ''b.mov'' \<lparr>Process = None\<rparr> idle)" "''b.mov''" True 0 0]
      unstarted by simp
  note t = registry_cancel [of oneJob "''a.mov''" True 0 7]
  have c: "cancel False ''a.mov'' oneJob = (Some 0, False, oneJob)"
    using t oneJob_entry by simp
  have d: "fst (cancel True ''a.mov'' oneJob) = Some 0
   \<and> fst (snd (cancel True ''a.mov'' oneJob))
   \<and> cancelled (heap (snd (snd (cancel True ''a.mov'' oneJob))) 0)
   \<and> conversions (snd (snd (cancel True ''a.mov'' oneJob))) ''a.mov'' = None
   \<and> killed (snd (snd (cancel True ''a.mov'' oneJob))) = [7]"
    using t oneJob_entry by simp
  have e: "cancel True ''a.mov'' (remove ''a.mov'' oneJob) = (None, False, remove ''a.mov'' oneJob)"
    using t by simp
  from a b c d e show ?thesis by simp
qed

subsection \<open>Failure messages\<close>

lemma HasPrefix_iff: "HasPrefix s p \<longleftrightarrow> (\<exists>b. s = p @ b)"
  by (induction s p rule: HasPrefix.induct) auto

lemma Contains_iff: "Contains s sub \<longleftrightarrow> (\<exists>a b. s = a @ sub @ b)"
proof (induction s)
  case Nil
  then show ?case by auto
next
  case (Cons c cs)
  show ?case
  proof
    assume "Contains (c # cs) sub"
    then consider "HasPrefix (c # cs) sub" | "Contains cs sub" by auto
    then show "\<exists>a b. c # cs = a @ sub @ b"
    proof cases
      case 1
      then obtain b where "c # cs = sub @ b" by (auto simp: HasPrefix_iff)
      then have "c # cs = [] @ sub @ b" by simp
      then show ?thesis by blast
    next
      case 2
      then obtain a b where "cs = a @ sub @ b" using Cons.IH by auto
      then have "c # cs = (c # a) @ sub @ b" by simp
      then show ?thesis by blast
    qed
  next
    assume "\<exists>a b. c # cs = a @ sub @ b"
    then obtain a b where ab: "c # cs = a @ sub @ b" by auto
    show "Contains (c # cs) sub"
    proof (cases a)
      case Nil
      then have "HasPrefix (c # cs) sub" using ab by (auto simp: HasPrefix_iff)
      then show ?thesis by simp
    next
      case (Cons x xs)
      then have "cs = xs @ sub @ b" using ab by simp
      then have "Contains cs sub" using Cons.IH by blast
      then show ?thesis by simp
    qed
  qed
qed


lemma mapFFmpegError_cases:
  "mapFFmpegError e fmt =
     (if Contains e ''Unknown encoder'' then (''Unsupported output format: '' @ fmt, 400)
      else if Contains e ''Invalid data found'' then (''Invalid or corrupted video file'', 400)
      else if Contains e ''No space left'' then
        (''Server storage full. Please try again later.'', 500)
      else if Contains e ''ffmpeg version'' then (''Conversion failed'', 500)
      else if e = [] then (''Conversion failed'', 500) else (e, 500))"
  by (simp add: mapFFmpegError_def)

subsection \<open>The outcome of a conversion\<close>

lemma state_osRemove [simp]:
  "heap (osRemove path s) = heap s" "socket (osRemove path s) = socket s"
  "conversions (osRemove path s) = conversions s" "nextAddr (osRemove path s) = nextAddr s"
  "downloads (osRemove path s) = downloads s - {path}"
  by (simp_all add: osRemove_def)

lemma state_remove [simp]:
  "heap (remove n s) = heap s" "socket (remove n s) = socket s"
  "downloads (remove n s) = downloads s" "nextAddr (remove n s) = nextAddr s"
  "conversions (remove n s) = (conversions s)(n := None)"
  by (simp_all add: remove_def)

lemma state_emitError [simp]:
  "heap (emitError n m s) = heap s" "socket (emitError n m s) = socket s @ [ConversionError n m]"
  "downloads (emitError n m s) = downloads s" "nextAddr (emitError n m s) = nextAddr s"
  "conversions (emitError n m s) = conversions s"
  by (simp_all add: emitError_def)

lemma state_emitProgress [simp]:
  "heap (emitProgress n p out b s) = heap s"
  "downloads (emitProgress n p out b s) = downloads s"
  "nextAddr (emitProgress n p out b s) = nextAddr s"
  "conversions (emitProgress n p out b s) = conversions s"
  by (simp_all add: emitProgress_def)

lemma conclude_cancelled:
  "cancelled (heap s p) \<Longrightarrow>
   conclude L req env p s =
     (HttpError ''Conversion cancelled by user'' 409,
      osRemove (outputPath req) (remove (originalName req) s))"
  by (simp add: conclude_def Let_def)

lemma conclude_failed:
  "\<not> cancelled (heap s p) \<Longrightarrow> waitError env \<Longrightarrow>
   conclude L req env p s =
     (HttpError (fst (mapFFmpegError (stderrBuf env) (outputFormat req)))
        (snd (mapFFmpegError (stderrBuf env) (outputFormat req))),
      osRemove (outputPath req)
        (emitError (originalName req) (fst (mapFFmpegError (stderrBuf env) (outputFormat req)))
          (remove (originalName req) s)))"
  by (simp add: conclude_def Let_def split: prod.split)

lemma conclude_probe_failed:
  "\<not> cancelled (heap s p) \<Longrightarrow> \<not> waitError env \<Longrightarrow> probeOutput env = None \<Longrightarrow>
   conclude L req env p s =
     (HttpError ''Conversion completed but metadata lookup failed'' 500,
      remove (originalName req) s)"
  by (simp add: conclude_def Let_def)

lemma conclude_succeeded:
  "\<not> cancelled (heap s p) \<Longrightarrow> \<not> waitError env \<Longrightarrow> probeOutput env = Some om \<Longrightarrow>
   conclude L req env p s =
     (HttpJSON 200 (successResponse L req om), remove (originalName req) s)"
  by (simp add: conclude_def Let_def)

lemma conclude_heap [simp]: "heap (snd (conclude L req env p s)) = heap s"
  by (simp add: conclude_def Let_def split: prod.split option.split)

lemma conclude_socket: "\<exists>es. socket (snd (conclude L req env p s)) = socket s @ es"
  by (simp add: conclude_def Let_def split: prod.split option.split)

lemma supervise_proc [simp]: "fst (supervise L req env d t pid s) = nextAddr s"
  by (simp add: supervise_def store_def Let_def split_beta)

text \<open>\<open>handleConvert\<close> once the subprocess has started.\<close>

lemma handleConvert_started:
  assumes "probeInput env = Some md" "stdoutPipeOk env" "startOutcome env = Started pid"
  shows "handleConvert L req env s =
     (fst (conclude L req env (nextAddr s)
        (snd (supervise L req env (estimateDuration L md) (estimateFrames L md) pid
               (emitProgress (originalName req) 0 (outputName req) False s)))),
      osRemove (inputPath req)
        (snd (conclude L req env (nextAddr s)
          (snd (supervise L req env (estimateDuration L md) (estimateFrames L md) pid
                 (emitProgress (originalName req) 0 (outputName req) False s))))))"
proof -
  obtain a s4 where sup: "supervise L req env (estimateDuration L md) (estimateFrames L md) pid
       (emitProgress (originalName req) 0 (outputName req) False s) = (a, s4)"
    by (cases "supervise L req env (estimateDuration L md) (estimateFrames L md) pid
       (emitProgress (originalName req) 0 (outputName req) False s)")
  have a: "a = nextAddr s"
    using supervise_proc [of L req env "estimateDuration L md" "estimateFrames L md" pid
        "emitProgress (originalName req) 0 (outputName req) False s"] sup by simp
  show ?thesis
    using assms sup a by (simp add: handleConvert_def Let_def split: prod.split)
qed

lemma handleConvert_not_started:
  assumes "probeInput env = None \<or> \<not> stdoutPipeOk env \<or> (\<forall>pid. startOutcome env \<noteq> Started pid)"
  shows "downloads (snd (handleConvert L req env s)) \<subseteq> downloads s - {inputPath req}"
    and "\<exists>m. fst (handleConvert L req env s) = HttpError m 500"
  using assms
  by (auto simp: handleConvert_def Let_def split: option.split startResult.split)


subsection \<open>While the subprocess runs\<close>

lemma report_state [simp]:
  "heap (snd (report n out c st)) = heap (snd st)"
  "conversions (snd (report n out c st)) = conversions (snd st)"
  "nextAddr (snd (report n out c st)) = nextAddr (snd st)"
  "downloads (snd (report n out c st)) = downloads (snd st)"
  by (simp_all add: report_def)

lemma report_socket: "\<exists>es. socket (snd (report n out c st)) = socket (snd st) @ es"
  by (simp add: report_def socket_emitProgress)

lemma readLine_state [simp]:
  "heap (snd (readLine L n out d t line st)) = heap (snd st)"
  "conversions (snd (readLine L n out d t line st)) = conversions (snd st)"
  "nextAddr (snd (readLine L n out d t line st)) = nextAddr (snd st)"
  "downloads (snd (readLine L n out d t line st)) = downloads (snd st)"
  by (simp_all add: readLine_def Let_def)

lemma readLine_socket: "\<exists>es. socket (snd (readLine L n out d t line st)) = socket (snd st) @ es"
  using report_socket by (simp add: readLine_def Let_def socket_emitProgress)

lemma cancel_downloads [simp]: "downloads (snd (snd (cancel killOk name s))) = downloads s"
  by (simp add: cancel_def split: option.split)

lemma onCancelConversion_downloads [simp]:
  "downloads (onCancelConversion killOk fileName s) = downloads s"
proof -
  have "downloads (snd (snd (cancel killOk fileName s))) = downloads s" by simp
  then show ?thesis
    by (cases "cancel killOk fileName s") (auto simp: onCancelConversion_def split: bool.split)
qed

lemma store_state [simp]:
  "downloads (snd (store n c s)) = downloads s" "socket (snd (store n c s)) = socket s"
  "nextAddr (snd (store n c s)) = Suc (nextAddr s)" "fst (store n c s) = nextAddr s"
  "conversions (snd (store n c s)) = (conversions s)(n \<mapsto> nextAddr s)"
  "heap (snd (store n c s)) = (heap s)(nextAddr s := \<lparr>cmd = c, cancelled = False\<rparr>)"
  by (simp_all add: store_def)

lemma runStep_downloads [simp]:
  "downloads (snd (runStep L n out d t st ev)) = downloads (snd st)"
  by (cases ev) (simp_all add: runStep_def)

lemma run_downloads [simp]:
  "downloads (snd (foldl (runStep L n out d t) st evs)) = downloads (snd st)"
  by (induction evs arbitrary: st) simp_all

lemma supervise_downloads:
  "downloads (snd (supervise L req env d t pid s)) =
     (if outputWritten env then insert (outputPath req) (downloads s) else downloads s)"
  by (simp add: supervise_def Let_def split_beta)

text \<open>The job of \<open>a.mov\<close>, for the examples.\<close>

lemma sample_estimates:
  "estimateDuration goAmd64 (probeOf ''10'' ''10'' ''300'' ''30/1'') = 10"
  "estimateFrames goAmd64 (probeOf ''10'' ''10'' ''300'' ''30/1'') = 300"
proof -
  have p: "ParseFloat goAmd64 ''10'' = Some 10" "ParseFloat goAmd64 ''300'' = Some 300"
    by (simp_all add: goAmd64_eval)
  have d: "parseDurationSeconds goAmd64 ''10'' = 10"
    using p by (simp add: parseDurationSeconds_def)
  show "estimateDuration goAmd64 (probeOf ''10'' ''10'' ''300'' ''30/1'') = 10"
    using d by (simp add: estimateDuration_container FormatDuration_probeOf)
  show "estimateFrames goAmd64 (probeOf ''10'' ''10'' ''300'' ''30/1'') = 300"
    using p by (simp add: estimateFrames_def firstVideoStream_probeOf parseFrameCount_reported
        streamOf_fields)
qed

lemma trim_keys:
  "TrimSpace goAmd64 ''out_time_ms'' = ''out_time_ms''" "TrimSpace goAmd64 ''frame'' = ''frame''"
  "TrimSpace goAmd64 ''2000'' = ''2000''" "TrimSpace goAmd64 ''4900'' = ''4900''"
  "TrimSpace goAmd64 ''0'' = ''0''"
  by (simp_all add: goAmd64_eval)

lemma sample_candidates:
  "progressFromTimestamp goAmd64 ''2000'' 10 1000 = 20"
  "progressFromTimestamp goAmd64 ''4900'' 10 1000 = 49"
  "progressFromFrame goAmd64 ''0'' 300 = 0"
proof -
  have p: "ParseFloat goAmd64 ''2000'' = Some 2000" "ParseFloat goAmd64 ''4900'' = Some 4900"
    "ParseFloat goAmd64 ''0'' = Some 0"
    by (simp_all add: goAmd64_eval)
  have f1: "fmul (fdiv (fdiv (Finite 2000) 1000) 10) 100 = Finite 20"
    by code_simp
  have f2: "fmul (fdiv (fdiv (Finite 4900) 1000) 10) 100
            = Finite (6896136929411073 / 140737488355328)"
    by code_simp
  have f3: "fmul (fdiv (Finite 0) 300) 100 = Finite 0"
    by code_simp
  have r: "round_half_away 20 = 20" "round_half_away (6896136929411073 / 140737488355328) = 49"
    "round_half_away 0 = 0"
    by (simp_all add: round_half_away_def floor_eq_iff)
  have fits: "fits_int64 20" "fits_int64 49" "fits_int64 0"
    by (simp_all add: fits_int64_def)
  show "progressFromTimestamp goAmd64 ''2000'' 10 1000 = 20"
    using progressFromTimestamp_finite [of 10 1000 goAmd64 "''2000''" 2000, OF _ _ _ f1] p r fits
    by (simp add: clamp_def)
  show "progressFromTimestamp goAmd64 ''4900'' 10 1000 = 49"
    using progressFromTimestamp_finite [of 10 1000 goAmd64 "''4900''" 4900, OF _ _ _ f2] p r fits
    by (simp add: clamp_def)
  show "progressFromFrame goAmd64 ''0'' 300 = 0"
    using progressFromFrame_finite [of 300 goAmd64 "''0''" 0, OF _ _ f3] p r fits
    by (simp add: clamp_def)
qed

lemma sample_lines:
  "readLine goAmd64 n out 10 300 ''out_time_ms=2000'' st = report n out 20 st"
  "readLine goAmd64 n out 10 300 ''out_time_ms=4900'' st = report n out 49 st"
  "readLine goAmd64 n out 10 300 ''frame=0'' st = report n out 0 st"
  by (simp_all add: readLine_def SplitN2_def Let_def trim_keys sample_candidates)


lemma sample_env:
  "probeInput (envOf evs failed e po) = Some (probeOf ''10'' ''10'' ''300'' ''30/1'')"
  "stdoutPipeOk (envOf evs failed e po)" "startOutcome (envOf evs failed e po) = Started 7"
  "running (envOf evs failed e po) = evs" "outputWritten (envOf evs failed e po)"
  "waitError (envOf evs failed e po) = failed" "stderrBuf (envOf evs failed e po) = e"
  "probeOutput (envOf evs failed e po) = po"
  by (simp_all add: envOf_def)

lemma sample_request:
  "originalName sampleRequest = ''a.mov''" "outputName sampleRequest = ''out.mp4''"
  "outputPath sampleRequest = ''downloads/out.mp4''"
  "inputPath sampleRequest = ''downloads/in-a.mov''" "outputFormat sampleRequest = ''mp4''"
  by (simp_all add: sampleRequest_def)

lemma idle_state:
  "socket idle = []" "nextAddr idle = 0" "downloads idle = {}"
  by (simp_all add: idle_def)

lemma sample_convert:
  "handleConvert goAmd64 sampleRequest (envOf evs failed e po) idle
   = (fst (conclude goAmd64 sampleRequest (envOf evs failed e po) 0
        (snd (supervise goAmd64 sampleRequest (envOf evs failed e po) 10 300 7
           (emitProgress ''a.mov'' 0 ''out.mp4'' False idle)))),
      osRemove ''downloads/in-a.mov''
        (snd (conclude goAmd64 sampleRequest (envOf evs failed e po) 0
          (snd (supervise goAmd64 sampleRequest (envOf evs failed e po) 10 300 7
             (emitProgress ''a.mov'' 0 ''out.mp4'' False idle))))))"
  using handleConvert_started [of "envOf evs failed e po" "probeOf ''10'' ''10'' ''300'' ''30/1''"
      7 goAmd64 sampleRequest idle]
  by (simp add: sample_env sample_request sample_estimates idle_state)

subsection \<open>The throttle of the reader\<close>

lemma split_lines:
  "SplitN2 ''out_time_ms=2000'' CHR ''='' = [''out_time_ms'', ''2000'']"
  "SplitN2 ''out_time_ms=4900'' CHR ''='' = [''out_time_ms'', ''4900'']"
  "SplitN2 ''progress=end'' CHR ''='' = [''progress'', ''end'']"
  "length (SplitN2 ''Press [q] to stop'' CHR ''='') \<noteq> 2"
  by (simp_all add: SplitN2_def)

lemma trim_progress_end:
  "TrimSpace goAmd64 ''progress'' = ''progress''" "TrimSpace goAmd64 ''end'' = ''end''"
  by (simp_all add: goAmd64_eval)

lemma sample_end_line:
  "readLine goAmd64 n out 10 300 ''progress=end'' st = (fst st, emitProgress n 100 out True (snd st))"
  by (simp add: readLine_def SplitN2_def Let_def trim_progress_end)

text \<open>
  Claim C2. The reader keeps a tracker. A candidate is forwarded exactly when it is
  greater than the tracker and either is at least 100 or exceeds the tracker by at
  least 5, and a forwarded candidate becomes the tracker. The candidates are the
  percentages of the lines with the keys \<open>frame\<close>, \<open>out_time_ms\<close>, \<open>out_time_us\<close> and
  \<open>out_time\<close>; the line \<open>progress=end\<close> sends 100, marked completed, whatever the
  tracker holds, and leaves the tracker as it is; every other line is skipped. The
  reader of a job starts with the tracker at minus the step. Hence, for every sequence
  of lines, the percentages the reader forwards increase strictly from above the
  tracker it started with, and the tracker is the last of them. On the candidates
  themselves the reader forwards what the rule in words selects, for every sequence
  (non-decreasing or not), and a candidate of 100 among candidates up to 100 is
  forwarded.
\<close>

theorem throttle_emission:
  "report n out c (l, s) =
     (if l < c \<and> (100 \<le> c \<or> l + 5 \<le> c) then (c, emitProgress n c out False s) else (l, s))
   \<and> (SplitN2 line CHR ''='' = [k, v] \<longrightarrow>
        readLine L n out d t line st =
          (if TrimSpace L k = ''frame'' then
             report n out (progressFromFrame L (TrimSpace L v) t) st
           else if TrimSpace L k = ''out_time_ms'' then
             report n out (progressFromTimestamp L (TrimSpace L v) d 1000) st
           else if TrimSpace L k = ''out_time_us'' then
             report n out (progressFromTimestamp L (TrimSpace L v) d 1000000) st
           else if TrimSpace L k = ''out_time'' then
             report n out (progressFromTimecode L (TrimSpace L v) d) st
           else if TrimSpace L k = ''progress'' \<and> TrimSpace L v = ''end'' then
             (fst st, emitProgress n 100 out True (snd st))
           else st))
   \<and> (length (SplitN2 line CHR ''='') \<noteq> 2 \<longrightarrow> readLine L n out d t line st = st)
   \<and> reader L n out d t [] st = st
   \<and> reader L n out d t (line # ls) st = reader L n out d t ls (readLine L n out d t line st)
   \<and> (running env = map StdoutLine ls \<longrightarrow>
        socket (snd (supervise L req env d t pid s1)) =
          socket (snd (reader L (originalName req) (outputName req) d t ls
            (- progressBroadcastStep, snd (store (originalName req) \<lparr>Process = Some pid\<rparr> s1)))))
   \<and> sorted_wrt (<)
        (l # forwarded (drop (length (socket s)) (socket (snd (reader L n out d t ls (l, s))))))
   \<and> fst (reader L n out d t ls (l, s)) =
        last (l # forwarded (drop (length (socket s)) (socket (snd (reader L n out d t ls (l, s))))))
   \<and> reportAll n out cs (l, s) =
        (last (l # throttled l cs),
         s\<lparr>socket := socket s
              @ map (\<lambda>p. ConversionProgress n (clamp p 0 100) out False) (throttled l cs)\<rparr>)
   \<and> sorted_wrt (<) (l # throttled l cs)
   \<and> ((\<forall>c \<in> set cs. 0 \<le> c \<and> c \<le> 100) \<longrightarrow>
        forwarded (drop (length (socket s)) (socket (snd (reportAll n out cs (l, s)))))
          = throttled l cs)
   \<and> ((\<forall>c \<in> set cs. c \<le> 100) \<and> 100 \<in> set cs \<and> l < 100 \<longrightarrow>
        100 \<in> set (throttled l cs))"
proof (intro conjI impI)
  show "report n out c (l, s) =
     (if l < c \<and> (100 \<le> c \<or> l + 5 \<le> c) then (c, emitProgress n c out False s) else (l, s))"
    by (rule report_rule)
  show "readLine L n out d t line st =
          (if TrimSpace L k = ''frame'' then
             report n out (progressFromFrame L (TrimSpace L v) t) st
           else if TrimSpace L k = ''out_time_ms'' then
             report n out (progressFromTimestamp L (TrimSpace L v) d 1000) st
           else if TrimSpace L k = ''out_time_us'' then
             report n out (progressFromTimestamp L (TrimSpace L v) d 1000000) st
           else if TrimSpace L k = ''out_time'' then
             report n out (progressFromTimecode L (TrimSpace L v) d) st
           else if TrimSpace L k = ''progress'' \<and> TrimSpace L v = ''end'' then
             (fst st, emitProgress n 100 out True (snd st))
           else st)"
    if "SplitN2 line CHR ''='' = [k, v]"
    using that by (rule readLine_dispatch)
  show "readLine L n out d t line st = st" if "length (SplitN2 line CHR ''='') \<noteq> 2"
    using that by (rule readLine_other)
  show "reader L n out d t [] st = st"
    by (rule reader_Nil)
  show "reader L n out d t (line # ls) st = reader L n out d t ls (readLine L n out d t line st)"
    by (rule reader_Cons)
  show "socket (snd (supervise L req env d t pid s1)) =
          socket (snd (reader L (originalName req) (outputName req) d t ls
            (- progressBroadcastStep, snd (store (originalName req) \<lparr>Process = Some pid\<rparr> s1))))"
    if "running env = map StdoutLine ls"
    using that by (rule supervise_lines)
  show "sorted_wrt (<)
        (l # forwarded (drop (length (socket s)) (socket (snd (reader L n out d t ls (l, s))))))"
    using reader_from_start [of s l L n out d t ls] unfolding tracker_inv_def by blast
  show "fst (reader L n out d t ls (l, s)) =
        last (l # forwarded (drop (length (socket s)) (socket (snd (reader L n out d t ls (l, s))))))"
    using reader_from_start [of s l L n out d t ls] unfolding tracker_inv_def by blast
  show "reportAll n out cs (l, s) =
        (last (l # throttled l cs),
         s\<lparr>socket := socket s
              @ map (\<lambda>p. ConversionProgress n (clamp p 0 100) out False) (throttled l cs)\<rparr>)"
    by (rule reportAll_throttled)
  show "sorted_wrt (<) (l # throttled l cs)"
    by (rule throttled_sorted)
  show "forwarded (drop (length (socket s)) (socket (snd (reportAll n out cs (l, s)))))
          = throttled l cs"
    if "\<forall>c \<in> set cs. 0 \<le> c \<and> c \<le> 100"
    using that by (rule reportAll_forwarded)
  show "100 \<in> set (throttled l cs)"
    if "(\<forall>c \<in> set cs. c \<le> 100) \<and> 100 \<in> set cs \<and> l < 100"
    using that by (simp add: throttled_100)
qed

text \<open>
  The theorem on the reader of \<open>a.mov\<close>, from a tracker of \<open>-5\<close> on the idle server: the
  lines for 20 percent twice, for 49 percent and the terminal line, a line that is no
  progress line, the reader of the job on one line, and the candidates
  0, 3, 20, 49, 61, 100, 100.
\<close>

theorem throttle_emission_witness:
  "reader goAmd64 ''a.mov'' ''out.mp4'' 10 300
     [''out_time_ms=2000'', ''out_time_ms=2000'', ''out_time_ms=4900'', ''progress=end'']
     (- 5, idle)
   = (49, idle\<lparr>socket := [ConversionProgress ''a.mov'' 20 ''out.mp4'' False,
                          ConversionProgress ''a.mov'' 49 ''out.mp4'' False,
                          ConversionProgress ''a.mov'' 100 ''out.mp4'' True]\<rparr>)
   \<and> readLine goAmd64 ''a.mov'' ''out.mp4'' 10 300 ''Press [q] to stop'' (49, idle) = (49, idle)
   \<and> socket (snd (supervise goAmd64 sampleRequest
        (envOf (map StdoutLine [''out_time_ms=2000'']) False [] None) 10 300 7 idle))
       = [ConversionProgress ''a.mov'' 20 ''out.mp4'' False]
   \<and> reportAll ''a.mov'' ''out.mp4'' [0, 3, 20, 49, 61, 100, 100] (- 5, idle)
       = (100, idle\<lparr>socket := [ConversionProgress ''a.mov'' 0 ''out.mp4'' False,
                               ConversionProgress ''a.mov'' 20 ''out.mp4'' False,
                               ConversionProgress ''a.mov'' 49 ''out.mp4'' False,
                               ConversionProgress ''a.mov'' 61 ''out.mp4'' False,
                               ConversionProgress ''a.mov'' 100 ''out.mp4'' False]\<rparr>)
   \<and> forwarded (socket (snd (reportAll ''a.mov'' ''out.mp4'' [0, 3, 20, 49, 61, 100, 100]
        (- 5, idle)))) = [0, 20, 49, 61, 100]
   \<and> 100 \<in> set (throttled (- 5) [0, 3, 20, 49, 61, 100, 100])"
proof -
  let ?E = "envOf (map StdoutLine [''out_time_ms=2000'']) False [] None"
  let ?cs = "[0, 3, 20, 49, 61, 100, 100] :: int list"
  have rule: "report ''a.mov'' ''out.mp4'' c (l, s) =
      (if l < c \<and> (100 \<le> c \<or> l + 5 \<le> c)
       then (c, emitProgress ''a.mov'' c ''out.mp4'' False s) else (l, s))" for c l s
    using throttle_emission [where n = "''a.mov''" and out = "''out.mp4''" and c = c and l = l
        and s = s, THEN conjunct1] .
  have line: "readLine goAmd64 ''a.mov'' ''out.mp4'' 10 300 ln st =
      (if TrimSpace goAmd64 k = ''frame'' then
         report ''a.mov'' ''out.mp4'' (progressFromFrame goAmd64 (TrimSpace goAmd64 v) 300) st
       else if TrimSpace goAmd64 k = ''out_time_ms'' then
         report ''a.mov'' ''out.mp4'' (progressFromTimestamp goAmd64 (TrimSpace goAmd64 v) 10 1000) st
       else if TrimSpace goAmd64 k = ''out_time_us'' then
         report ''a.mov'' ''out.mp4''
           (progressFromTimestamp goAmd64 (TrimSpace goAmd64 v) 10 1000000) st
       else if TrimSpace goAmd64 k = ''out_time'' then
         report ''a.mov'' ''out.mp4'' (progressFromTimecode goAmd64 (TrimSpace goAmd64 v) 10) st
       else if TrimSpace goAmd64 k = ''progress'' \<and> TrimSpace goAmd64 v = ''end'' then
         (fst st, emitProgress ''a.mov'' 100 ''out.mp4'' True (snd st))
       else st)"
    if "SplitN2 ln CHR ''='' = [k, v]" for ln k v st
    using throttle_emission [where n = "''a.mov''" and out = "''out.mp4''" and L = goAmd64
        and d = 10 and t = 300 and line = ln and k = k and v = v and st = st,
        THEN conjunct2, THEN conjunct1] that by simp
  have l20: "readLine goAmd64 ''a.mov'' ''out.mp4'' 10 300 ''out_time_ms=2000'' st
             = report ''a.mov'' ''out.mp4'' 20 st" for st
    using line [OF split_lines(1)] by (simp add: trim_keys sample_candidates)
  have l49: "readLine goAmd64 ''a.mov'' ''out.mp4'' 10 300 ''out_time_ms=4900'' st
             = report ''a.mov'' ''out.mp4'' 49 st" for st
    using line [OF split_lines(2)] by (simp add: trim_keys sample_candidates)
  have lend: "readLine goAmd64 ''a.mov'' ''out.mp4'' 10 300 ''progress=end'' st
             = (fst st, emitProgress ''a.mov'' 100 ''out.mp4'' True (snd st))" for st
    using line [OF split_lines(3)] by (simp add: trim_progress_end)
  have nil: "reader goAmd64 n out 10 300 [] st = st" for n out st
    using throttle_emission [where L = goAmd64 and n = n and out = out and d = 10 and t = 300
        and st = st, THEN conjunct2, THEN conjunct2, THEN conjunct2, THEN conjunct1] .
  have cons: "reader goAmd64 ''a.mov'' ''out.mp4'' 10 300 (ln # ls) st
      = reader goAmd64 ''a.mov'' ''out.mp4'' 10 300 ls
          (readLine goAmd64 ''a.mov'' ''out.mp4'' 10 300 ln st)" for ln ls st
    using throttle_emission [where L = goAmd64 and n = "''a.mov''" and out = "''out.mp4''"
        and d = 10 and t = 300 and st = st and line = ln and ls = ls,
        THEN conjunct2, THEN conjunct2, THEN conjunct2, THEN conjunct2, THEN conjunct1] .
  have a: "reader goAmd64 ''a.mov'' ''out.mp4'' 10 300
     [''out_time_ms=2000'', ''out_time_ms=2000'', ''out_time_ms=4900'', ''progress=end'']
     (- 5, idle)
   = (49, idle\<lparr>socket := [ConversionProgress ''a.mov'' 20 ''out.mp4'' False,
                          ConversionProgress ''a.mov'' 49 ''out.mp4'' False,
                          ConversionProgress ''a.mov'' 100 ''out.mp4'' True]\<rparr>)"
    by (simp add: cons nil l20 l49 lend rule emitProgress_def clamp_def idle_def)
  have b: "readLine goAmd64 ''a.mov'' ''out.mp4'' 10 300 ''Press [q] to stop'' (49, idle)
           = (49, idle)"
    using throttle_emission [where L = goAmd64 and n = "''a.mov''" and out = "''out.mp4''"
        and d = 10 and t = 300 and st = "(49, idle)" and line = "''Press [q] to stop''",
        THEN conjunct2, THEN conjunct2, THEN conjunct1] split_lines(4) by simp
  have "socket (snd (supervise goAmd64 sampleRequest ?E 10 300 7 idle)) =
      socket (snd (reader goAmd64 (originalName sampleRequest) (outputName sampleRequest) 10 300
        [''out_time_ms=2000'']
        (- progressBroadcastStep,
         snd (store (originalName sampleRequest) \<lparr>Process = Some 7\<rparr> idle))))"
    using throttle_emission [where L = goAmd64 and req = sampleRequest and env = ?E and d = 10
        and t = 300 and pid = 7 and ?s1.0 = idle and ls = "[''out_time_ms=2000'']",
        THEN conjunct2, THEN conjunct2, THEN conjunct2, THEN conjunct2, THEN conjunct2,
        THEN conjunct1]
    by (simp add: sample_env)
  then have c: "socket (snd (supervise goAmd64 sampleRequest ?E 10 300 7 idle))
       = [ConversionProgress ''a.mov'' 20 ''out.mp4'' False]"
    by (simp add: sample_request progressBroadcastStep_def cons nil l20 rule emitProgress_def
        clamp_def store_def idle_def)
  have t: "throttled (- 5) ?cs = [0, 20, 49, 61, 100]"
    by simp
  have d: "reportAll ''a.mov'' ''out.mp4'' ?cs (- 5, idle)
       = (100, idle\<lparr>socket := [ConversionProgress ''a.mov'' 0 ''out.mp4'' False,
                               ConversionProgress ''a.mov'' 20 ''out.mp4'' False,
                               ConversionProgress ''a.mov'' 49 ''out.mp4'' False,
                               ConversionProgress ''a.mov'' 61 ''out.mp4'' False,
                               ConversionProgress ''a.mov'' 100 ''out.mp4'' False]\<rparr>)"
    using throttle_emission [where n = "''a.mov''" and out = "''out.mp4''" and cs = ?cs
        and l = "- 5" and s = idle,
        THEN conjunct2, THEN conjunct2, THEN conjunct2, THEN conjunct2, THEN conjunct2,
        THEN conjunct2, THEN conjunct2, THEN conjunct2, THEN conjunct1]
    unfolding t by (simp add: clamp_def idle_def)
  have range: "\<forall>c \<in> set ?cs. 0 \<le> c \<and> c \<le> 100" "\<forall>c \<in> set ?cs. c \<le> 100" "100 \<in> set ?cs"
    by simp_all
  have e: "forwarded (socket (snd (reportAll ''a.mov'' ''out.mp4'' ?cs (- 5, idle))))
           = [0, 20, 49, 61, 100]"
    using throttle_emission [where n = "''a.mov''" and out = "''out.mp4''" and cs = ?cs
        and l = "- 5" and s = idle,
        THEN conjunct2, THEN conjunct2, THEN conjunct2, THEN conjunct2, THEN conjunct2,
        THEN conjunct2, THEN conjunct2, THEN conjunct2, THEN conjunct2, THEN conjunct2,
        THEN conjunct1] range(1)
    unfolding t by (simp add: idle_state)
  have f: "100 \<in> set (throttled (- 5) ?cs)"
    using throttle_emission [where cs = ?cs and l = "- 5",
        THEN conjunct2, THEN conjunct2, THEN conjunct2, THEN conjunct2, THEN conjunct2,
        THEN conjunct2, THEN conjunct2, THEN conjunct2, THEN conjunct2, THEN conjunct2,
        THEN conjunct2] range(2,3)
    by simp
  from a b c d e f show ?thesis by simp
qed

text \<open>
  The tracker is not the last percentage sent. A job sends 0 percent before its reader
  starts, and the reader starts from \<open>-5\<close>: a first candidate of 0 is forwarded although
  it is not greater than the 0 sent before it. The terminal line sends 100 and leaves
  the tracker: after the lines for 20 percent and \<open>progress=end\<close>, the line for 49
  percent is forwarded after 100 was sent.
\<close>

lemma zero_run:
  "snd (supervise goAmd64 sampleRequest (envOf [StdoutLine ''frame=0''] failed e po)
     10 300 7 (emitProgress ''a.mov'' 0 ''out.mp4'' False idle))
   = idle\<lparr>conversions := [''a.mov'' \<mapsto> 0],
          heap := (heap idle)(0 := \<lparr>cmd = \<lparr>Process = Some 7\<rparr>, cancelled = False\<rparr>),
          nextAddr := 1,
          socket := [ConversionProgress ''a.mov'' 0 ''out.mp4'' False,
                     ConversionProgress ''a.mov'' 0 ''out.mp4'' False],
          downloads := {''downloads/out.mp4''}\<rparr>"
  by (simp add: supervise_def sample_env sample_request sample_lines runStep_def report_def
      shouldEmitProgress_def progressBroadcastStep_def emitProgress_def
      store_def idle_def clamp_def)

lemma end_run:
  "snd (supervise goAmd64 sampleRequest
     (envOf [StdoutLine ''out_time_ms=2000'', StdoutLine ''progress=end'',
             StdoutLine ''out_time_ms=4900''] failed e po)
     10 300 7 (emitProgress ''a.mov'' 0 ''out.mp4'' False idle))
   = idle\<lparr>conversions := [''a.mov'' \<mapsto> 0],
          heap := (heap idle)(0 := \<lparr>cmd = \<lparr>Process = Some 7\<rparr>, cancelled = False\<rparr>),
          nextAddr := 1,
          socket := [ConversionProgress ''a.mov'' 0 ''out.mp4'' False,
                     ConversionProgress ''a.mov'' 20 ''out.mp4'' False,
                     ConversionProgress ''a.mov'' 100 ''out.mp4'' True,
                     ConversionProgress ''a.mov'' 49 ''out.mp4'' False],
          downloads := {''downloads/out.mp4''}\<rparr>"
  by (simp add: supervise_def sample_env sample_request sample_lines sample_end_line runStep_def
      report_def shouldEmitProgress_def progressBroadcastStep_def emitProgress_def
      store_def idle_def clamp_def)

theorem throttle_emission_counterexample:
  "socket (snd (handleConvert goAmd64 sampleRequest
     (envOf [StdoutLine ''frame=0''] False [] (Some (probeOf ''10'' ''10'' ''300'' ''30/1'')))
     idle))
   = [ConversionProgress ''a.mov'' 0 ''out.mp4'' False,
      ConversionProgress ''a.mov'' 0 ''out.mp4'' False]
   \<and> socket (snd (handleConvert goAmd64 sampleRequest
     (envOf [StdoutLine ''out_time_ms=2000'', StdoutLine ''progress=end'',
             StdoutLine ''out_time_ms=4900''] False []
        (Some (probeOf ''10'' ''10'' ''300'' ''30/1''))) idle))
   = [ConversionProgress ''a.mov'' 0 ''out.mp4'' False,
      ConversionProgress ''a.mov'' 20 ''out.mp4'' False,
      ConversionProgress ''a.mov'' 100 ''out.mp4'' True,
      ConversionProgress ''a.mov'' 49 ''out.mp4'' False]"
proof -
  have a: "socket (snd (handleConvert goAmd64 sampleRequest
     (envOf [StdoutLine ''frame=0''] False [] (Some (probeOf ''10'' ''10'' ''300'' ''30/1'')))
     idle))
   = [ConversionProgress ''a.mov'' 0 ''out.mp4'' False,
      ConversionProgress ''a.mov'' 0 ''out.mp4'' False]"
    unfolding sample_convert zero_run
    by (simp add: conclude_def Let_def sample_env sample_request idle_def remove_def)
  have b: "socket (snd (handleConvert goAmd64 sampleRequest
     (envOf [StdoutLine ''out_time_ms=2000'', StdoutLine ''progress=end'',
             StdoutLine ''out_time_ms=4900''] False []
        (Some (probeOf ''10'' ''10'' ''300'' ''30/1''))) idle))
   = [ConversionProgress ''a.mov'' 0 ''out.mp4'' False,
      ConversionProgress ''a.mov'' 20 ''out.mp4'' False,
      ConversionProgress ''a.mov'' 100 ''out.mp4'' True,
      ConversionProgress ''a.mov'' 49 ''out.mp4'' False]"
    unfolding sample_convert end_run
    by (simp add: conclude_def Let_def sample_env sample_request idle_def remove_def)
  from a b show ?thesis by simp
qed

subsection \<open>Cancellation\<close>

lemma onCancelConversion_ok:
  "fileName \<noteq> [] \<Longrightarrow> fst (snd (cancel killOk fileName s)) \<Longrightarrow>
   onCancelConversion killOk fileName s =
     emitError fileName ''Conversion cancelled by user'' (snd (snd (cancel killOk fileName s)))"
  by (cases "cancel killOk fileName s") (auto simp: onCancelConversion_def)

lemma onCancelConversion_not_ok:
  "\<not> (fileName \<noteq> [] \<and> fst (snd (cancel killOk fileName s))) \<Longrightarrow>
   onCancelConversion killOk fileName s = s"
  using cancel_changes_only_on_ok [of killOk fileName s]
  by (cases "cancel killOk fileName s") (auto simp: onCancelConversion_def)

text \<open>The two steps of the handler, one after the other, are the handler.\<close>

lemma handler_steps:
  assumes "fileName \<noteq> []" "fst (snd (cancel killOk fileName (snd st)))"
  shows "runStep L n out d t (runStep L n out d t st (CancelConversion fileName killOk))
           (CancelledMessage fileName)
         = (fst st, onCancelConversion killOk fileName (snd st))"
  using assms by (simp add: runStep_def onCancelConversion_ok)

lemma handler_first_step_not_ok:
  assumes "\<not> (fileName \<noteq> [] \<and> fst (snd (cancel killOk fileName (snd st))))"
  shows "runStep L n out d t st (CancelConversion fileName killOk) = st"
  using assms cancel_changes_only_on_ok [of killOk fileName "snd st"]
  by (cases st) (auto simp: runStep_def)

text \<open>The only step that sets a flag is a cancel whose kill succeeded.\<close>

lemma runStep_sets_flag:
  assumes "cancelled (heap (snd (runStep L n out d t st ev)) p)" "\<not> cancelled (heap (snd st) p)"
  shows "\<exists>f. ev = CancelConversion f True \<and> f \<noteq> [] \<and> conversions (snd st) f = Some p"
proof (cases ev)
  case (StdoutLine line)
  then show ?thesis using assms by (simp add: runStep_def)
next
  case (CancelConversion f k)
  then show ?thesis
    using assms by (auto simp: runStep_def cancel_def split: if_splits option.splits)
next
  case (CancelledMessage f)
  then show ?thesis using assms by (simp add: runStep_def)
next
  case (OtherStore name c)
  then show ?thesis using assms by (auto simp: runStep_def split: if_splits)
next
  case (OtherRemove name)
  then show ?thesis using assms by (simp add: runStep_def)
qed

lemma handleConvert_cancelled:
  assumes "probeInput env = Some md" "stdoutPipeOk env" "startOutcome env = Started pid"
    "cancelled (heap (snd (handleConvert L req env s)) (nextAddr s))"
  shows "fst (handleConvert L req env s) = HttpError ''Conversion cancelled by user'' 409"
    and "outputPath req \<notin> downloads (snd (handleConvert L req env s))"
    and "socket (snd (handleConvert L req env s)) =
           socket (snd (supervise L req env (estimateDuration L md) (estimateFrames L md) pid
             (emitProgress (originalName req) 0 (outputName req) False s)))"
proof -
  define s4 where "s4 = snd (supervise L req env (estimateDuration L md) (estimateFrames L md) pid
             (emitProgress (originalName req) 0 (outputName req) False s))"
  have hc: "handleConvert L req env s =
      (fst (conclude L req env (nextAddr s) s4),
       osRemove (inputPath req) (snd (conclude L req env (nextAddr s) s4)))"
    using assms(1-3) handleConvert_started [of env md pid L req s] by (simp add: s4_def)
  have flag: "cancelled (heap s4 (nextAddr s))"
    using assms(4) by (simp add: hc)
  have c: "conclude L req env (nextAddr s) s4 =
      (HttpError ''Conversion cancelled by user'' 409,
       osRemove (outputPath req) (remove (originalName req) s4))"
    using flag by (rule conclude_cancelled)
  show "fst (handleConvert L req env s) = HttpError ''Conversion cancelled by user'' 409"
    by (simp add: hc c)
  show "outputPath req \<notin> downloads (snd (handleConvert L req env s))"
    by (simp add: hc c)
  have "socket (snd (handleConvert L req env s)) = socket s4"
    by (simp add: hc c)
  then show "socket (snd (handleConvert L req env s)) =
           socket (snd (supervise L req env (estimateDuration L md) (estimateFrames L md) pid
             (emitProgress (originalName req) 0 (outputName req) False s)))"
    unfolding s4_def .
qed

text \<open>
  Claim C7. When the job's cancellation flag is set once the subprocess and the reader
  have finished, the request is answered with status 409 and the message
  \<open>Conversion cancelled by user\<close>, and the output file is removed, whatever \<^verbatim>\<open>cmd.Wait\<close>
  returned and whatever the probe of the output would say. This part of the program
  sends nothing through the socket: the events of the finished job are those sent up
  to the end of the subprocess and of the reader. The only step that sets a flag is
  the first step of the handler of a cancellation request, when the file name is not
  empty, the registry holds the job under it and the kill succeeds. The message on the
  event channel is the second step of that handler: the handler as a whole sends it
  when \<open>cancel\<close> answered ok and changes nothing otherwise, and its two steps one after
  the other are the handler as a whole.
\<close>

theorem cancelled_outcome:
  "(cancelled (heap s p) \<longrightarrow>
      conclude L req env p s =
        (HttpError ''Conversion cancelled by user'' 409,
         osRemove (outputPath req) (remove (originalName req) s)))
   \<and> (probeInput env = Some md \<and> stdoutPipeOk env \<and> startOutcome env = Started pid
        \<and> cancelled (heap (snd (handleConvert L req env s)) (nextAddr s)) \<longrightarrow>
      fst (handleConvert L req env s) = HttpError ''Conversion cancelled by user'' 409
      \<and> outputPath req \<notin> downloads (snd (handleConvert L req env s))
      \<and> socket (snd (handleConvert L req env s)) =
          socket (snd (supervise L req env (estimateDuration L md) (estimateFrames L md) pid
            (emitProgress (originalName req) 0 (outputName req) False s))))
   \<and> (cancelled (heap (snd (runStep L n out d t st ev)) p) \<and> \<not> cancelled (heap (snd st) p) \<longrightarrow>
      (\<exists>f. ev = CancelConversion f True \<and> f \<noteq> [] \<and> conversions (snd st) f = Some p))
   \<and> (fileName \<noteq> [] \<and> fst (snd (cancel killOk fileName s)) \<longrightarrow>
      onCancelConversion killOk fileName s =
        emitError fileName ''Conversion cancelled by user'' (snd (snd (cancel killOk fileName s))))
   \<and> (\<not> (fileName \<noteq> [] \<and> fst (snd (cancel killOk fileName s))) \<longrightarrow>
      onCancelConversion killOk fileName s = s)
   \<and> (fileName \<noteq> [] \<and> fst (snd (cancel killOk fileName (snd st))) \<longrightarrow>
      runStep L n out d t (runStep L n out d t st (CancelConversion fileName killOk))
        (CancelledMessage fileName)
      = (fst st, onCancelConversion killOk fileName (snd st)))
   \<and> (\<not> (fileName \<noteq> [] \<and> fst (snd (cancel killOk fileName (snd st)))) \<longrightarrow>
      runStep L n out d t st (CancelConversion fileName killOk) = st)"
proof (intro conjI impI)
  show "conclude L req env p s =
        (HttpError ''Conversion cancelled by user'' 409,
         osRemove (outputPath req) (remove (originalName req) s))"
    if "cancelled (heap s p)"
    using that by (rule conclude_cancelled)
  show "\<exists>f. ev = CancelConversion f True \<and> f \<noteq> [] \<and> conversions (snd st) f = Some p"
    if "cancelled (heap (snd (runStep L n out d t st ev)) p) \<and> \<not> cancelled (heap (snd st) p)"
    using that runStep_sets_flag [of L n out d t st ev p] by simp
  show "onCancelConversion killOk fileName s =
        emitError fileName ''Conversion cancelled by user'' (snd (snd (cancel killOk fileName s)))"
    if "fileName \<noteq> [] \<and> fst (snd (cancel killOk fileName s))"
    using that by (simp add: onCancelConversion_ok)
  show "onCancelConversion killOk fileName s = s"
    if "\<not> (fileName \<noteq> [] \<and> fst (snd (cancel killOk fileName s)))"
    using that by (rule onCancelConversion_not_ok)
  show "runStep L n out d t (runStep L n out d t st (CancelConversion fileName killOk))
        (CancelledMessage fileName)
      = (fst st, onCancelConversion killOk fileName (snd st))"
    if "fileName \<noteq> [] \<and> fst (snd (cancel killOk fileName (snd st)))"
    using that by (simp add: handler_steps)
  show "runStep L n out d t st (CancelConversion fileName killOk) = st"
    if "\<not> (fileName \<noteq> [] \<and> fst (snd (cancel killOk fileName (snd st))))"
    using that by (rule handler_first_step_not_ok)
next
  assume h: "probeInput env = Some md \<and> stdoutPipeOk env \<and> startOutcome env = Started pid
        \<and> cancelled (heap (snd (handleConvert L req env s)) (nextAddr s))"
  note r = handleConvert_cancelled [of env md pid L req s]
  show "fst (handleConvert L req env s) = HttpError ''Conversion cancelled by user'' 409"
    using h r(1) by simp
  show "outputPath req \<notin> downloads (snd (handleConvert L req env s))"
    using h r(2) by simp
  show "socket (snd (handleConvert L req env s)) =
          socket (snd (supervise L req env (estimateDuration L md) (estimateFrames L md) pid
            (emitProgress (originalName req) 0 (outputName req) False s)))"
    using h r(3) by simp
qed

text \<open>
  The job of \<open>a.mov\<close> when a cancellation request arrives between two progress lines:
  with both steps of the handler before the end of the subprocess, and with the first
  step only.
\<close>

lemma cancelled_run:
  "snd (supervise goAmd64 sampleRequest
     (envOf [StdoutLine ''out_time_ms=2000'', CancelConversion ''a.mov'' True,
             CancelledMessage ''a.mov'', StdoutLine ''out_time_ms=4900''] failed e po) 10 300 7
     (emitProgress ''a.mov'' 0 ''out.mp4'' False idle))
   = idle\<lparr>heap := (heap idle)(0 := \<lparr>cmd = \<lparr>Process = Some 7\<rparr>, cancelled = True\<rparr>),
          nextAddr := 1,
          socket := [ConversionProgress ''a.mov'' 0 ''out.mp4'' False,
                     ConversionProgress ''a.mov'' 20 ''out.mp4'' False,
                     ConversionError ''a.mov'' ''Conversion cancelled by user'',
                     ConversionProgress ''a.mov'' 49 ''out.mp4'' False],
          downloads := {''downloads/out.mp4''},
          killed := [7]\<rparr>"
  by (simp add: supervise_def sample_env sample_request sample_lines runStep_def report_def
      shouldEmitProgress_def progressBroadcastStep_def emitProgress_def emitError_def
      cancel_def store_def idle_def clamp_def)

lemma cancelled_run_pending:
  "snd (supervise goAmd64 sampleRequest
     (envOf [StdoutLine ''out_time_ms=2000'', CancelConversion ''a.mov'' True] failed e po)
     10 300 7 (emitProgress ''a.mov'' 0 ''out.mp4'' False idle))
   = idle\<lparr>heap := (heap idle)(0 := \<lparr>cmd = \<lparr>Process = Some 7\<rparr>, cancelled = True\<rparr>),
          nextAddr := 1,
          socket := [ConversionProgress ''a.mov'' 0 ''out.mp4'' False,
                     ConversionProgress ''a.mov'' 20 ''out.mp4'' False],
          downloads := {''downloads/out.mp4''},
          killed := [7]\<rparr>"
  by (simp add: supervise_def sample_env sample_request sample_lines runStep_def report_def
      shouldEmitProgress_def progressBroadcastStep_def emitProgress_def
      cancel_def store_def idle_def clamp_def)

text \<open>
  The theorem on the job of \<open>a.mov\<close>: the subprocess is killed on request between two
  progress lines, and although \<^verbatim>\<open>cmd.Wait\<close> reports no error and the output would probe
  well, the answer is the cancellation, the output file is gone, and the events are
  those of the run. On the registered job alone: the end of a job whose flag is set
  and whose subprocess failed, the step that sets the flag, and the handler when the
  kill succeeds and when it fails.
\<close>

theorem cancelled_outcome_witness:
  "fst (handleConvert goAmd64 sampleRequest
     (envOf [StdoutLine ''out_time_ms=2000'', CancelConversion ''a.mov'' True,
             CancelledMessage ''a.mov'', StdoutLine ''out_time_ms=4900''] False []
        (Some (probeOf ''10'' ''10'' ''300'' ''30/1''))) idle)
     = HttpError ''Conversion cancelled by user'' 409
   \<and> ''downloads/out.mp4'' \<notin> downloads (snd (handleConvert goAmd64 sampleRequest
     (envOf [StdoutLine ''out_time_ms=2000'', CancelConversion ''a.mov'' True,
             CancelledMessage ''a.mov'', StdoutLine ''out_time_ms=4900''] False []
        (Some (probeOf ''10'' ''10'' ''300'' ''30/1''))) idle))
   \<and> socket (snd (handleConvert goAmd64 sampleRequest
     (envOf [StdoutLine ''out_time_ms=2000'', CancelConversion ''a.mov'' True,
             CancelledMessage ''a.mov'', StdoutLine ''out_time_ms=4900''] False []
        (Some (probeOf ''10'' ''10'' ''300'' ''30/1''))) idle))
     = [ConversionProgress ''a.mov'' 0 ''out.mp4'' False,
        ConversionProgress ''a.mov'' 20 ''out.mp4'' False,
        ConversionError ''a.mov'' ''Conversion cancelled by user'',
        ConversionProgress ''a.mov'' 49 ''out.mp4'' False]
   \<and> conclude goAmd64 sampleRequest (envOf [] True ''Killed'' None) 0
        (snd (snd (cancel True ''a.mov'' oneJob)))
     = (HttpError ''Conversion cancelled by user'' 409,
        osRemove ''downloads/out.mp4'' (remove ''a.mov'' (snd (snd (cancel True ''a.mov'' oneJob)))))
   \<and> (\<exists>f. CancelConversion ''a.mov'' True = CancelConversion f True \<and> f \<noteq> []
          \<and> conversions oneJob f = Some 0)
   \<and> onCancelConversion True ''a.mov'' oneJob
       = emitError ''a.mov'' ''Conversion cancelled by user'' (snd (snd (cancel True ''a.mov'' oneJob)))
   \<and> onCancelConversion False ''a.mov'' oneJob = oneJob
   \<and> runStep goAmd64 ''a.mov'' ''out.mp4'' 10 300
        (runStep goAmd64 ''a.mov'' ''out.mp4'' 10 300 (20, oneJob) (CancelConversion ''a.mov'' True))
        (CancelledMessage ''a.mov'')
       = (20, onCancelConversion True ''a.mov'' oneJob)
   \<and> runStep goAmd64 ''a.mov'' ''out.mp4'' 10 300 (20, oneJob) (CancelConversion ''a.mov'' False)
       = (20, oneJob)"
proof -
  let ?E = "envOf [StdoutLine ''out_time_ms=2000'', CancelConversion ''a.mov'' True,
             CancelledMessage ''a.mov'', StdoutLine ''out_time_ms=4900''] False []
        (Some (probeOf ''10'' ''10'' ''300'' ''30/1''))"
  let ?F = "envOf [] True ''Killed'' None"
  let ?md = "probeOf ''10'' ''10'' ''300'' ''30/1''"
  let ?st = "(20 :: int, oneJob)"
  let ?c = "snd (snd (cancel True ''a.mov'' oneJob))"
  note t = cancelled_outcome [where L = goAmd64 and req = sampleRequest and env = ?E and s = idle
      and md = ?md and pid = 7 and p = 0 and n = "''a.mov''" and out = "''out.mp4''" and d = 10
      and t = 300 and st = ?st and ev = "CancelConversion ''a.mov'' True"
      and fileName = "''a.mov''" and killOk = True]
  note u = cancelled_outcome [where L = goAmd64 and req = sampleRequest and env = ?F and s = ?c
      and md = ?md and pid = 7 and p = 0 and n = "''a.mov''" and out = "''out.mp4''" and d = 10
      and t = 300 and st = ?st and ev = "CancelConversion ''a.mov'' True"
      and fileName = "''a.mov''" and killOk = True]
  note v = cancelled_outcome [where L = goAmd64 and req = sampleRequest and env = ?F
      and s = oneJob and md = ?md and pid = 7 and p = 0 and n = "''a.mov''" and out = "''out.mp4''"
      and d = 10 and t = 300 and st = ?st and ev = "CancelConversion ''a.mov'' True"
      and fileName = "''a.mov''" and killOk = True]
  note w = cancelled_outcome [where L = goAmd64 and req = sampleRequest and env = ?F
      and s = oneJob and md = ?md and pid = 7 and p = 0 and n = "''a.mov''" and out = "''out.mp4''"
      and d = 10 and t = 300 and st = ?st and ev = "CancelConversion ''a.mov'' True"
      and fileName = "''a.mov''" and killOk = False]
  have hc: "handleConvert goAmd64 sampleRequest ?E idle
      = (fst (conclude goAmd64 sampleRequest ?E 0
           (snd (supervise goAmd64 sampleRequest ?E 10 300 7
              (emitProgress ''a.mov'' 0 ''out.mp4'' False idle)))),
         osRemove ''downloads/in-a.mov''
           (snd (conclude goAmd64 sampleRequest ?E 0
             (snd (supervise goAmd64 sampleRequest ?E 10 300 7
                (emitProgress ''a.mov'' 0 ''out.mp4'' False idle))))))"
    by (rule sample_convert)
  have flag: "cancelled (heap (snd (handleConvert goAmd64 sampleRequest ?E idle)) (nextAddr idle))"
    unfolding hc by (simp add: idle_state cancelled_run)
  have run: "socket (snd (supervise goAmd64 sampleRequest ?E 10 300 7
                (emitProgress ''a.mov'' 0 ''out.mp4'' False idle)))
     = [ConversionProgress ''a.mov'' 0 ''out.mp4'' False,
        ConversionProgress ''a.mov'' 20 ''out.mp4'' False,
        ConversionError ''a.mov'' ''Conversion cancelled by user'',
        ConversionProgress ''a.mov'' 49 ''out.mp4'' False]"
    by (simp add: cancelled_run)
  have a: "fst (handleConvert goAmd64 sampleRequest ?E idle)
             = HttpError ''Conversion cancelled by user'' 409
     \<and> ''downloads/out.mp4'' \<notin> downloads (snd (handleConvert goAmd64 sampleRequest ?E idle))
     \<and> socket (snd (handleConvert goAmd64 sampleRequest ?E idle))
         = [ConversionProgress ''a.mov'' 0 ''out.mp4'' False,
            ConversionProgress ''a.mov'' 20 ''out.mp4'' False,
            ConversionError ''a.mov'' ''Conversion cancelled by user'',
            ConversionProgress ''a.mov'' 49 ''out.mp4'' False]"
    using t [THEN conjunct2, THEN conjunct1] flag run
    by (simp add: sample_env sample_request sample_estimates)
  have ok: "fst (snd (cancel True ''a.mov'' oneJob))" "\<not> fst (snd (cancel False ''a.mov'' oneJob))"
    by (simp_all add: cancel_ok_iff oneJob_entry)
  have set: "cancelled (heap ?c 0)" "\<not> cancelled (heap oneJob 0)"
    "conversions oneJob ''a.mov'' = Some 0"
    by (simp_all add: cancel_def oneJob_def store_def idle_def)
  have b: "conclude goAmd64 sampleRequest ?F 0 ?c
     = (HttpError ''Conversion cancelled by user'' 409,
        osRemove ''downloads/out.mp4'' (remove ''a.mov'' ?c))"
    using u [THEN conjunct1] set(1) by (simp add: sample_request)
  have step: "snd (runStep goAmd64 ''a.mov'' ''out.mp4'' 10 300 ?st (CancelConversion ''a.mov'' True))
              = ?c"
    by (simp add: runStep_def)
  have c: "\<exists>f. CancelConversion ''a.mov'' True = CancelConversion f True \<and> f \<noteq> []
          \<and> conversions oneJob f = Some 0"
    using v [THEN conjunct2, THEN conjunct2, THEN conjunct1] set(1,2) unfolding step by simp
  have d: "onCancelConversion True ''a.mov'' oneJob
       = emitError ''a.mov'' ''Conversion cancelled by user'' ?c"
    using v [THEN conjunct2, THEN conjunct2, THEN conjunct2, THEN conjunct1] ok by simp
  have e: "onCancelConversion False ''a.mov'' oneJob = oneJob"
    using w [THEN conjunct2, THEN conjunct2, THEN conjunct2, THEN conjunct2, THEN conjunct1] ok
    by simp
  have f: "runStep goAmd64 ''a.mov'' ''out.mp4'' 10 300
        (runStep goAmd64 ''a.mov'' ''out.mp4'' 10 300 ?st (CancelConversion ''a.mov'' True))
        (CancelledMessage ''a.mov'')
       = (20, onCancelConversion True ''a.mov'' oneJob)"
    using v [THEN conjunct2, THEN conjunct2, THEN conjunct2, THEN conjunct2, THEN conjunct2,
        THEN conjunct1] ok by simp
  have g: "runStep goAmd64 ''a.mov'' ''out.mp4'' 10 300 ?st (CancelConversion ''a.mov'' False)
       = (20, oneJob)"
    using w [THEN conjunct2, THEN conjunct2, THEN conjunct2, THEN conjunct2, THEN conjunct2,
        THEN conjunct2] ok by simp
  from a b c d e f g show ?thesis by simp
qed

text \<open>
  The message need not be among the events when the request is answered: the mutex is
  free between the two steps of the handler. When the subprocess and the reader end
  after the first step, the request is answered with the cancellation while the events
  are the two progress events only, and the message follows the answer.
\<close>

theorem cancelled_outcome_counterexample:
  "fst (handleConvert goAmd64 sampleRequest
     (envOf [StdoutLine ''out_time_ms=2000'', CancelConversion ''a.mov'' True] False []
        (Some (probeOf ''10'' ''10'' ''300'' ''30/1''))) idle)
     = HttpError ''Conversion cancelled by user'' 409
   \<and> socket (snd (handleConvert goAmd64 sampleRequest
     (envOf [StdoutLine ''out_time_ms=2000'', CancelConversion ''a.mov'' True] False []
        (Some (probeOf ''10'' ''10'' ''300'' ''30/1''))) idle))
     = [ConversionProgress ''a.mov'' 0 ''out.mp4'' False,
        ConversionProgress ''a.mov'' 20 ''out.mp4'' False]
   \<and> socket (snd (runStep goAmd64 ''a.mov'' ''out.mp4'' 10 300
        (20, snd (handleConvert goAmd64 sampleRequest
           (envOf [StdoutLine ''out_time_ms=2000'', CancelConversion ''a.mov'' True] False []
              (Some (probeOf ''10'' ''10'' ''300'' ''30/1''))) idle))
        (CancelledMessage ''a.mov'')))
     = [ConversionProgress ''a.mov'' 0 ''out.mp4'' False,
        ConversionProgress ''a.mov'' 20 ''out.mp4'' False,
        ConversionError ''a.mov'' ''Conversion cancelled by user'']"
proof -
  let ?E = "envOf [StdoutLine ''out_time_ms=2000'', CancelConversion ''a.mov'' True] False []
        (Some (probeOf ''10'' ''10'' ''300'' ''30/1''))"
  have a: "fst (handleConvert goAmd64 sampleRequest ?E idle)
     = HttpError ''Conversion cancelled by user'' 409"
    unfolding sample_convert cancelled_run_pending
    by (simp add: conclude_def Let_def sample_request idle_def remove_def)
  have b: "socket (snd (handleConvert goAmd64 sampleRequest ?E idle))
     = [ConversionProgress ''a.mov'' 0 ''out.mp4'' False,
        ConversionProgress ''a.mov'' 20 ''out.mp4'' False]"
    unfolding sample_convert cancelled_run_pending
    by (simp add: conclude_def Let_def sample_request idle_def remove_def)
  have c: "socket (snd (runStep goAmd64 ''a.mov'' ''out.mp4'' 10 300
        (20, snd (handleConvert goAmd64 sampleRequest ?E idle)) (CancelledMessage ''a.mov'')))
     = [ConversionProgress ''a.mov'' 0 ''out.mp4'' False,
        ConversionProgress ''a.mov'' 20 ''out.mp4'' False,
        ConversionError ''a.mov'' ''Conversion cancelled by user'']"
    using b by (simp add: runStep_def)
  from a b c show ?thesis by simp
qed

text \<open>
  Claim C8. When \<^verbatim>\<open>cmd.Wait\<close> returns an error and the job was not cancelled, the text
  the subprocess wrote to its standard error is classified by substring tests that
  distinguish upper and lower case, the first that applies winning: \<open>Unknown encoder\<close>
  gives the unsupported-format message with the requested format and status 400;
  \<open>Invalid data found\<close> gives the corrupt-input message and status 400; \<open>No space left\<close>
  gives the storage message and status 500; \<open>ffmpeg version\<close> gives
  \<open>Conversion failed\<close> and status 500; any other text is echoed with status 500 when
  it is not empty, and an empty text gives \<open>Conversion failed\<close> and status 500. In
  each case the message is sent as an error event, the request fails with the message
  and the status, and the output file is removed.
\<close>

theorem transcode_failure:
  "(Contains e ''Unknown encoder'' \<longrightarrow>
      mapFFmpegError e fmt = (''Unsupported output format: '' @ fmt, 400))
   \<and> (\<not> Contains e ''Unknown encoder'' \<and> Contains e ''Invalid data found'' \<longrightarrow>
      mapFFmpegError e fmt = (''Invalid or corrupted video file'', 400))
   \<and> (\<not> Contains e ''Unknown encoder'' \<and> \<not> Contains e ''Invalid data found''
        \<and> Contains e ''No space left'' \<longrightarrow>
      mapFFmpegError e fmt = (''Server storage full. Please try again later.'', 500))
   \<and> (\<not> Contains e ''Unknown encoder'' \<and> \<not> Contains e ''Invalid data found''
        \<and> \<not> Contains e ''No space left'' \<and> Contains e ''ffmpeg version'' \<longrightarrow>
      mapFFmpegError e fmt = (''Conversion failed'', 500))
   \<and> (\<not> Contains e ''Unknown encoder'' \<and> \<not> Contains e ''Invalid data found''
        \<and> \<not> Contains e ''No space left'' \<and> \<not> Contains e ''ffmpeg version'' \<longrightarrow>
      mapFFmpegError e fmt = (if e = [] then ''Conversion failed'' else e, 500))
   \<and> (Contains e sub \<longleftrightarrow> (\<exists>a b. e = a @ sub @ b))
   \<and> (\<not> cancelled (heap s p) \<and> waitError env \<longrightarrow>
      conclude L req env p s =
        (HttpError (fst (mapFFmpegError (stderrBuf env) (outputFormat req)))
           (snd (mapFFmpegError (stderrBuf env) (outputFormat req))),
         osRemove (outputPath req)
           (emitError (originalName req)
              (fst (mapFFmpegError (stderrBuf env) (outputFormat req)))
              (remove (originalName req) s))))
   \<and> (probeInput env = Some md \<and> stdoutPipeOk env \<and> startOutcome env = Started pid
        \<and> \<not> cancelled (heap (snd (handleConvert L req env s0)) (nextAddr s0))
        \<and> waitError env \<longrightarrow>
      fst (handleConvert L req env s0) =
        HttpError (fst (mapFFmpegError (stderrBuf env) (outputFormat req)))
          (snd (mapFFmpegError (stderrBuf env) (outputFormat req)))
      \<and> last (socket (snd (handleConvert L req env s0))) =
          ConversionError (originalName req)
            (fst (mapFFmpegError (stderrBuf env) (outputFormat req)))
      \<and> outputPath req \<notin> downloads (snd (handleConvert L req env s0)))"
proof (intro conjI impI)
  show "mapFFmpegError e fmt = (''Unsupported output format: '' @ fmt, 400)"
    if "Contains e ''Unknown encoder''"
    using that by (simp add: mapFFmpegError_cases)
  show "mapFFmpegError e fmt = (''Invalid or corrupted video file'', 400)"
    if "\<not> Contains e ''Unknown encoder'' \<and> Contains e ''Invalid data found''"
    using that by (simp add: mapFFmpegError_cases)
  show "mapFFmpegError e fmt = (''Server storage full. Please try again later.'', 500)"
    if "\<not> Contains e ''Unknown encoder'' \<and> \<not> Contains e ''Invalid data found''
        \<and> Contains e ''No space left''"
    using that by (simp add: mapFFmpegError_cases)
  show "mapFFmpegError e fmt = (''Conversion failed'', 500)"
    if "\<not> Contains e ''Unknown encoder'' \<and> \<not> Contains e ''Invalid data found''
        \<and> \<not> Contains e ''No space left'' \<and> Contains e ''ffmpeg version''"
    using that by (simp add: mapFFmpegError_cases)
  show "mapFFmpegError e fmt = (if e = [] then ''Conversion failed'' else e, 500)"
    if "\<not> Contains e ''Unknown encoder'' \<and> \<not> Contains e ''Invalid data found''
        \<and> \<not> Contains e ''No space left'' \<and> \<not> Contains e ''ffmpeg version''"
    using that by (simp add: mapFFmpegError_cases)
  show "Contains e sub \<longleftrightarrow> (\<exists>a b. e = a @ sub @ b)"
    by (rule Contains_iff)
  show "conclude L req env p s =
        (HttpError (fst (mapFFmpegError (stderrBuf env) (outputFormat req)))
           (snd (mapFFmpegError (stderrBuf env) (outputFormat req))),
         osRemove (outputPath req)
           (emitError (originalName req)
              (fst (mapFFmpegError (stderrBuf env) (outputFormat req)))
              (remove (originalName req) s)))"
    if "\<not> cancelled (heap s p) \<and> waitError env"
    using that by (simp add: conclude_failed)
next
  assume h: "probeInput env = Some md \<and> stdoutPipeOk env \<and> startOutcome env = Started pid
        \<and> \<not> cancelled (heap (snd (handleConvert L req env s0)) (nextAddr s0))
        \<and> waitError env"
  define s4 where "s4 = snd (supervise L req env (estimateDuration L md) (estimateFrames L md) pid
       (emitProgress (originalName req) 0 (outputName req) False s0))"
  have hc: "handleConvert L req env s0 =
      (fst (conclude L req env (nextAddr s0) s4),
       osRemove (inputPath req) (snd (conclude L req env (nextAddr s0) s4)))"
    using h handleConvert_started [of env md pid L req s0] by (simp add: s4_def)
  have flag: "\<not> cancelled (heap s4 (nextAddr s0))"
    using h by (simp add: hc)
  note c = conclude_failed [OF flag, of env L req]
  show "fst (handleConvert L req env s0) =
        HttpError (fst (mapFFmpegError (stderrBuf env) (outputFormat req)))
          (snd (mapFFmpegError (stderrBuf env) (outputFormat req)))"
    using h by (simp add: hc c)
  show "last (socket (snd (handleConvert L req env s0))) =
          ConversionError (originalName req)
            (fst (mapFFmpegError (stderrBuf env) (outputFormat req)))"
    using h by (simp add: hc c)
  show "outputPath req \<notin> downloads (snd (handleConvert L req env s0))"
    using h by (simp add: hc c)
qed

text \<open>
  As the claim words the substrings, in lower case, it fails: a buffer that holds
  \<open>unknown encoder\<close> is echoed with status 500, and so are the two others.
\<close>

theorem transcode_failure_counterexample:
  "mapFFmpegError ''unknown encoder'' ''mp4'' = (''unknown encoder'', 500)
   \<and> mapFFmpegError ''invalid data found'' ''mp4'' = (''invalid data found'', 500)
   \<and> mapFFmpegError ''no space left'' ''mp4'' = (''no space left'', 500)
   \<and> mapFFmpegError [] ''mp4'' = (''Conversion failed'', 500)"
  by (simp add: mapFFmpegError_def)


text \<open>The job of \<open>a.mov\<close> with one progress line and no cancellation.\<close>

lemma plain_run:
  "snd (supervise goAmd64 sampleRequest (envOf [StdoutLine ''out_time_ms=2000''] failed e po)
     10 300 7 (emitProgress ''a.mov'' 0 ''out.mp4'' False idle))
   = idle\<lparr>conversions := [''a.mov'' \<mapsto> 0],
          heap := (heap idle)(0 := \<lparr>cmd = \<lparr>Process = Some 7\<rparr>, cancelled = False\<rparr>),
          nextAddr := 1,
          socket := [ConversionProgress ''a.mov'' 0 ''out.mp4'' False,
                     ConversionProgress ''a.mov'' 20 ''out.mp4'' False],
          downloads := {''downloads/out.mp4''}\<rparr>"
  by (simp add: supervise_def sample_env sample_request sample_lines runStep_def report_def
      shouldEmitProgress_def progressBroadcastStep_def emitProgress_def
      store_def idle_def clamp_def)

text \<open>
  The theorem on five error texts, and on the job of \<open>a.mov\<close> when the subprocess fails
  on corrupt input.
\<close>

theorem transcode_failure_witness:
  "mapFFmpegError ''Unknown encoder libfoo'' ''mkv'' = (''Unsupported output format: mkv'', 400)
   \<and> mapFFmpegError ''a.mov: Invalid data found when processing input'' ''mp4''
       = (''Invalid or corrupted video file'', 400)
   \<and> mapFFmpegError ''write error: No space left on device'' ''mp4''
       = (''Server storage full. Please try again later.'', 500)
   \<and> mapFFmpegError ''ffmpeg version 6.0'' ''mp4'' = (''Conversion failed'', 500)
   \<and> mapFFmpegError ''Conversion interrupted'' ''mp4'' = (''Conversion interrupted'', 500)
   \<and> fst (handleConvert goAmd64 sampleRequest
        (envOf [StdoutLine ''out_time_ms=2000''] True
           ''a.mov: Invalid data found when processing input'' None) idle)
       = HttpError ''Invalid or corrupted video file'' 400
   \<and> last (socket (snd (handleConvert goAmd64 sampleRequest
        (envOf [StdoutLine ''out_time_ms=2000''] True
           ''a.mov: Invalid data found when processing input'' None) idle)))
       = ConversionError ''a.mov'' ''Invalid or corrupted video file''
   \<and> ''downloads/out.mp4'' \<notin> downloads (snd (handleConvert goAmd64 sampleRequest
        (envOf [StdoutLine ''out_time_ms=2000''] True
           ''a.mov: Invalid data found when processing input'' None) idle))"
proof -
  let ?E = "envOf [StdoutLine ''out_time_ms=2000''] True
           ''a.mov: Invalid data found when processing input'' None"
  have a: "mapFFmpegError ''Unknown encoder libfoo'' ''mkv'' = (''Unsupported output format: mkv'', 400)"
    using transcode_failure [where e = "''Unknown encoder libfoo''" and fmt = "''mkv''"
        and sub = "[]" and s = idle and p = 0 and env = ?E and L = goAmd64
        and req = sampleRequest and ?s0.0 = idle and md = "probeOf ''10'' ''10'' ''300'' ''30/1''"
        and pid = 7]
    by simp
  have b: "mapFFmpegError ''a.mov: Invalid data found when processing input'' ''mp4''
       = (''Invalid or corrupted video file'', 400)"
    using transcode_failure [where e = "''a.mov: Invalid data found when processing input''"
        and fmt = "''mp4''" and sub = "[]" and s = idle and p = 0 and env = ?E and L = goAmd64
        and req = sampleRequest and ?s0.0 = idle and md = "probeOf ''10'' ''10'' ''300'' ''30/1''"
        and pid = 7]
    by simp
  have c: "mapFFmpegError ''write error: No space left on device'' ''mp4''
       = (''Server storage full. Please try again later.'', 500)"
    using transcode_failure [where e = "''write error: No space left on device''"
        and fmt = "''mp4''" and sub = "[]" and s = idle and p = 0 and env = ?E and L = goAmd64
        and req = sampleRequest and ?s0.0 = idle and md = "probeOf ''10'' ''10'' ''300'' ''30/1''"
        and pid = 7]
    by simp
  have d: "mapFFmpegError ''ffmpeg version 6.0'' ''mp4'' = (''Conversion failed'', 500)"
    using transcode_failure [where e = "''ffmpeg version 6.0''"
        and fmt = "''mp4''" and sub = "[]" and s = idle and p = 0 and env = ?E and L = goAmd64
        and req = sampleRequest and ?s0.0 = idle and md = "probeOf ''10'' ''10'' ''300'' ''30/1''"
        and pid = 7]
    by simp
  have e: "mapFFmpegError ''Conversion interrupted'' ''mp4'' = (''Conversion interrupted'', 500)"
    using transcode_failure [where e = "''Conversion interrupted''"
        and fmt = "''mp4''" and sub = "[]" and s = idle and p = 0 and env = ?E and L = goAmd64
        and req = sampleRequest and ?s0.0 = idle and md = "probeOf ''10'' ''10'' ''300'' ''30/1''"
        and pid = 7]
    by simp
  have flag: "\<not> cancelled (heap (snd (handleConvert goAmd64 sampleRequest ?E idle)) (nextAddr idle))"
    unfolding sample_convert by (simp add: idle_state plain_run)
  have f: "fst (handleConvert goAmd64 sampleRequest ?E idle)
       = HttpError ''Invalid or corrupted video file'' 400
     \<and> last (socket (snd (handleConvert goAmd64 sampleRequest ?E idle)))
       = ConversionError ''a.mov'' ''Invalid or corrupted video file''
     \<and> ''downloads/out.mp4'' \<notin> downloads (snd (handleConvert goAmd64 sampleRequest ?E idle))"
    using transcode_failure [where e = "''a.mov: Invalid data found when processing input''"
        and fmt = "''mp4''" and sub = "[]" and s = idle and p = 0 and env = ?E and L = goAmd64
        and req = sampleRequest and ?s0.0 = idle and md = "probeOf ''10'' ''10'' ''300'' ''30/1''"
        and pid = 7]
      flag b
    by (simp add: sample_env sample_request)
  from a b c d e f show ?thesis by simp
qed

text \<open>
  Claim C9. When the subprocess finished without error, the job was not cancelled and
  the probe of the output fails, the request fails with status 500 and the message
  \<open>Conversion completed but metadata lookup failed\<close>, and the output file stays. No
  other failure leaves it: if the output file was not there before the request and is
  there after it, then the subprocess was started and wrote it, finished without error,
  the job was not cancelled, and the answer is either the success response or this
  error. In this failure no event is sent after those of the run.
\<close>

theorem probe_failure_outcome:
  "(\<not> cancelled (heap s p) \<and> \<not> waitError env \<and> probeOutput env = None \<longrightarrow>
      conclude L req env p s =
        (HttpError ''Conversion completed but metadata lookup failed'' 500,
         remove (originalName req) s))
   \<and> (probeInput env = Some md \<and> stdoutPipeOk env \<and> startOutcome env = Started pid
        \<and> \<not> cancelled (heap (snd (handleConvert L req env s0)) (nextAddr s0))
        \<and> \<not> waitError env \<and> probeOutput env = None \<and> outputWritten env
        \<and> inputPath req \<noteq> outputPath req \<longrightarrow>
      fst (handleConvert L req env s0) =
        HttpError ''Conversion completed but metadata lookup failed'' 500
      \<and> outputPath req \<in> downloads (snd (handleConvert L req env s0))
      \<and> socket (snd (handleConvert L req env s0)) =
          socket (snd (supervise L req env (estimateDuration L md) (estimateFrames L md) pid
                   (emitProgress (originalName req) 0 (outputName req) False s0))))
   \<and> (outputPath req \<notin> downloads s0
        \<and> outputPath req \<in> downloads (snd (handleConvert L req env s0)) \<longrightarrow>
      (\<exists>md pid. probeInput env = Some md \<and> stdoutPipeOk env \<and> startOutcome env = Started pid)
      \<and> outputWritten env \<and> \<not> waitError env
      \<and> \<not> cancelled (heap (snd (handleConvert L req env s0)) (nextAddr s0))
      \<and> fst (handleConvert L req env s0) =
          (case probeOutput env of
             None \<Rightarrow> HttpError ''Conversion completed but metadata lookup failed'' 500
           | Some om \<Rightarrow> HttpJSON 200 (successResponse L req om)))"
proof (intro conjI impI)
  show "conclude L req env p s =
        (HttpError ''Conversion completed but metadata lookup failed'' 500,
         remove (originalName req) s)"
    if "\<not> cancelled (heap s p) \<and> \<not> waitError env \<and> probeOutput env = None"
    using that by (simp add: conclude_probe_failed)
next
  assume h: "probeInput env = Some md \<and> stdoutPipeOk env \<and> startOutcome env = Started pid
        \<and> \<not> cancelled (heap (snd (handleConvert L req env s0)) (nextAddr s0))
        \<and> \<not> waitError env \<and> probeOutput env = None \<and> outputWritten env
        \<and> inputPath req \<noteq> outputPath req"
  define s4 where "s4 = snd (supervise L req env (estimateDuration L md) (estimateFrames L md) pid
       (emitProgress (originalName req) 0 (outputName req) False s0))"
  have hc: "handleConvert L req env s0 =
      (fst (conclude L req env (nextAddr s0) s4),
       osRemove (inputPath req) (snd (conclude L req env (nextAddr s0) s4)))"
    using h handleConvert_started [of env md pid L req s0] by (simp add: s4_def)
  have flag: "\<not> cancelled (heap s4 (nextAddr s0))"
    using h by (simp add: hc)
  have c: "conclude L req env (nextAddr s0) s4 =
      (HttpError ''Conversion completed but metadata lookup failed'' 500,
       remove (originalName req) s4)"
    using flag h by (simp add: conclude_probe_failed)
  have d: "downloads s4 = insert (outputPath req) (downloads s0)"
    using h by (simp add: s4_def supervise_downloads)
  show "fst (handleConvert L req env s0) =
        HttpError ''Conversion completed but metadata lookup failed'' 500"
    by (simp add: hc c)
  show "outputPath req \<in> downloads (snd (handleConvert L req env s0))"
    using h by (auto simp: hc c d)
  have "socket (snd (handleConvert L req env s0)) = socket s4"
    by (simp add: hc c)
  then show "socket (snd (handleConvert L req env s0)) =
          socket (snd (supervise L req env (estimateDuration L md) (estimateFrames L md) pid
                   (emitProgress (originalName req) 0 (outputName req) False s0)))"
    unfolding s4_def .
next
  assume h: "outputPath req \<notin> downloads s0
        \<and> outputPath req \<in> downloads (snd (handleConvert L req env s0))"
  have started: "\<exists>md pid. probeInput env = Some md \<and> stdoutPipeOk env \<and> startOutcome env = Started pid"
  proof (rule ccontr)
    assume "\<not> ?thesis"
    then have "probeInput env = None \<or> \<not> stdoutPipeOk env \<or> (\<forall>pid. startOutcome env \<noteq> Started pid)"
      by (cases "probeInput env") auto
    from handleConvert_not_started(1) [OF this, of L req s0] h show False by auto
  qed
  then obtain md pid where e: "probeInput env = Some md" "stdoutPipeOk env"
      "startOutcome env = Started pid"
    by blast
  define s4 where "s4 = snd (supervise L req env (estimateDuration L md) (estimateFrames L md) pid
       (emitProgress (originalName req) 0 (outputName req) False s0))"
  have hc: "handleConvert L req env s0 =
      (fst (conclude L req env (nextAddr s0) s4),
       osRemove (inputPath req) (snd (conclude L req env (nextAddr s0) s4)))"
    using handleConvert_started [OF e, of L req s0] by (simp add: s4_def)
  have d: "downloads s4 = (if outputWritten env then insert (outputPath req) (downloads s0)
                           else downloads s0)"
    by (simp add: s4_def supervise_downloads)
  have kept: "outputPath req \<in> downloads (snd (conclude L req env (nextAddr s0) s4))"
    using h by (simp add: hc)
  have flag: "\<not> cancelled (heap s4 (nextAddr s0))"
    using kept conclude_cancelled [of s4 "nextAddr s0" L req env] by auto
  have noerr: "\<not> waitError env"
    using kept flag conclude_failed [of s4 "nextAddr s0" env L req] by auto
  have c: "conclude L req env (nextAddr s0) s4 =
      (case probeOutput env of
         None \<Rightarrow> HttpError ''Conversion completed but metadata lookup failed'' 500
       | Some om \<Rightarrow> HttpJSON 200 (successResponse L req om),
       remove (originalName req) s4)"
    using flag noerr by (simp add: conclude_def Let_def split: option.split)
  have written: "outputWritten env"
    using kept h d by (auto simp: c split: if_splits)
  show "\<exists>md pid. probeInput env = Some md \<and> stdoutPipeOk env \<and> startOutcome env = Started pid"
    by (rule started)
  show "outputWritten env" by (rule written)
  show "\<not> waitError env" by (rule noerr)
  show "\<not> cancelled (heap (snd (handleConvert L req env s0)) (nextAddr s0))"
    using flag by (simp add: hc)
  show "fst (handleConvert L req env s0) =
          (case probeOutput env of
             None \<Rightarrow> HttpError ''Conversion completed but metadata lookup failed'' 500
           | Some om \<Rightarrow> HttpJSON 200 (successResponse L req om))"
    by (simp add: hc c)
qed


text \<open>
  The theorem on the job of \<open>a.mov\<close> when the subprocess succeeds and the probe of the
  output fails, from the idle server, where the output file does not exist beforehand.
\<close>

theorem probe_failure_outcome_witness:
  "fst (handleConvert goAmd64 sampleRequest (envOf [StdoutLine ''out_time_ms=2000''] False [] None)
      idle) = HttpError ''Conversion completed but metadata lookup failed'' 500
   \<and> ''downloads/out.mp4'' \<in> downloads (snd (handleConvert goAmd64 sampleRequest
        (envOf [StdoutLine ''out_time_ms=2000''] False [] None) idle))
   \<and> ''downloads/out.mp4'' \<notin> downloads idle
   \<and> socket (snd (handleConvert goAmd64 sampleRequest
        (envOf [StdoutLine ''out_time_ms=2000''] False [] None) idle))
       = [ConversionProgress ''a.mov'' 0 ''out.mp4'' False,
          ConversionProgress ''a.mov'' 20 ''out.mp4'' False]
   \<and> conclude goAmd64 sampleRequest (envOf [] False [] None) 0 oneJob
       = (HttpError ''Conversion completed but metadata lookup failed'' 500,
          remove ''a.mov'' oneJob)"
proof -
  let ?E = "envOf [StdoutLine ''out_time_ms=2000''] False [] None"
  note t = probe_failure_outcome [of idle 0 ?E goAmd64 sampleRequest
      "probeOf ''10'' ''10'' ''300'' ''30/1''" 7 idle]
  have flag: "\<not> cancelled (heap (snd (handleConvert goAmd64 sampleRequest ?E idle)) (nextAddr idle))"
    unfolding sample_convert by (simp add: idle_state plain_run)
  have a: "fst (handleConvert goAmd64 sampleRequest ?E idle)
             = HttpError ''Conversion completed but metadata lookup failed'' 500
      \<and> ''downloads/out.mp4'' \<in> downloads (snd (handleConvert goAmd64 sampleRequest ?E idle))
      \<and> socket (snd (handleConvert goAmd64 sampleRequest ?E idle))
          = [ConversionProgress ''a.mov'' 0 ''out.mp4'' False,
             ConversionProgress ''a.mov'' 20 ''out.mp4'' False]"
    using t flag
    by (simp add: sample_env sample_request sample_estimates plain_run)
  have fresh: "''downloads/out.mp4'' \<notin> downloads idle"
    by (simp add: idle_state)
  have b: "fst (handleConvert goAmd64 sampleRequest ?E idle)
      = (case probeOutput ?E of
           None \<Rightarrow> HttpError ''Conversion completed but metadata lookup failed'' 500
         | Some om \<Rightarrow> HttpJSON 200 (successResponse goAmd64 sampleRequest om))"
    using t a fresh by (simp add: sample_request)
  have idleflag: "\<not> cancelled (heap oneJob 0)"
    by (simp add: oneJob_def store_def idle_def)
  have c: "conclude goAmd64 sampleRequest (envOf [] False [] None) 0 oneJob
       = (HttpError ''Conversion completed but metadata lookup failed'' 500,
          remove ''a.mov'' oneJob)"
    using probe_failure_outcome [of oneJob 0 "envOf [] False [] None" goAmd64 sampleRequest
        "probeOf ''10'' ''10'' ''300'' ''30/1''" 7 idle] idleflag
    by (simp add: sample_env sample_request)
  from a b c fresh show ?thesis by simp
qed

subsection \<open>The first progress event\<close>

lemma cancel_socket [simp]: "socket (snd (snd (cancel killOk name s))) = socket s"
  by (simp add: cancel_def split: option.split)

lemma runStep_socket: "\<exists>es. socket (snd (runStep L n out d t st ev)) = socket (snd st) @ es"
proof (cases ev)
  case (StdoutLine line)
  then show ?thesis using readLine_socket by (simp add: runStep_def)
next
  case (CancelConversion fileName killOk)
  then show ?thesis by (simp add: runStep_def)
next
  case (CancelledMessage fileName)
  then show ?thesis by (simp add: runStep_def)
next
  case (OtherStore name c)
  then show ?thesis by (simp add: runStep_def)
next
  case (OtherRemove name)
  then show ?thesis by (simp add: runStep_def)
qed

lemma run_socket:
  "\<exists>es. socket (snd (foldl (runStep L n out d t) st evs)) = socket (snd st) @ es"
proof (induction evs arbitrary: st)
  case Nil
  then show ?case by simp
next
  case (Cons ev evs)
  obtain es1 where 1: "socket (snd (runStep L n out d t st ev)) = socket (snd st) @ es1"
    using runStep_socket by blast
  obtain es2 where "socket (snd (foldl (runStep L n out d t) (runStep L n out d t st ev) evs))
      = socket (snd (runStep L n out d t st ev)) @ es2"
    using Cons.IH by blast
  then show ?case using 1 by simp
qed

lemma readLine_frame_zero:
  assumes "SplitN2 line CHR ''='' = [k, v]" "TrimSpace L k = ''frame''"
    "progressFromFrame L (TrimSpace L v) t = 0"
  shows "readLine L n out d t line (- progressBroadcastStep, s)
         = (0, emitProgress n 0 out False s)"
  using assms
  by (simp add: readLine_def Let_def report_def shouldEmitProgress_def progressBroadcastStep_def)

text \<open>
  Claim C10. The reader starts with its tracker at minus the step, \<open>-5\<close>, so that every
  first candidate from 0 on passes the throttle, 0 included. Hence when the first line of
  the progress stream is a frame line whose percentage is 0, the job sends the 0 percent
  event twice: once before the subprocess starts, and once from the reader.
\<close>

theorem zero_progress_twice:
  "shouldEmitProgress 0 (- progressBroadcastStep)
   \<and> (0 \<le> c \<longrightarrow> shouldEmitProgress c (- progressBroadcastStep))
   \<and> (probeInput env = Some md \<and> stdoutPipeOk env \<and> startOutcome env = Started pid
        \<and> running env = StdoutLine line # evs
        \<and> SplitN2 line CHR ''='' = [k, v] \<and> TrimSpace L k = ''frame''
        \<and> progressFromFrame L (TrimSpace L v) (estimateFrames L md) = 0 \<longrightarrow>
      take (length (socket s0) + 2) (socket (snd (handleConvert L req env s0)))
        = socket s0 @ [ConversionProgress (originalName req) 0 (outputName req) False,
                       ConversionProgress (originalName req) 0 (outputName req) False])"
proof (intro conjI impI)
  show "shouldEmitProgress 0 (- progressBroadcastStep)"
    by (simp add: shouldEmitProgress_def progressBroadcastStep_def)
  show "shouldEmitProgress c (- progressBroadcastStep)" if "0 \<le> c"
    using that by (simp add: shouldEmitProgress_def progressBroadcastStep_def)
next
  assume h: "probeInput env = Some md \<and> stdoutPipeOk env \<and> startOutcome env = Started pid
        \<and> running env = StdoutLine line # evs
        \<and> SplitN2 line CHR ''='' = [k, v] \<and> TrimSpace L k = ''frame''
        \<and> progressFromFrame L (TrimSpace L v) (estimateFrames L md) = 0"
  let ?n = "originalName req" and ?out = "outputName req"
  let ?P = "ConversionProgress ?n 0 ?out False"
  define s1 where "s1 = emitProgress ?n 0 ?out False s0"
  define s2 where "s2 = snd (store ?n \<lparr>Process = Some pid\<rparr> s1)"
  define s4 where "s4 = snd (supervise L req env (estimateDuration L md) (estimateFrames L md) pid s1)"
  have hc: "handleConvert L req env s0 =
      (fst (conclude L req env (nextAddr s0) s4),
       osRemove (inputPath req) (snd (conclude L req env (nextAddr s0) s4)))"
    using h handleConvert_started [of env md pid L req s0] by (simp add: s1_def s4_def)
  have first: "runStep L ?n ?out (estimateDuration L md) (estimateFrames L md)
                 (- progressBroadcastStep, s2) (StdoutLine line)
               = (0, emitProgress ?n 0 ?out False s2)"
    using h readLine_frame_zero [of line k v L "estimateFrames L md" ?n ?out
        "estimateDuration L md" s2]
    by (simp add: runStep_def)
  obtain es where run: "socket (snd (foldl (runStep L ?n ?out (estimateDuration L md)
        (estimateFrames L md)) (0, emitProgress ?n 0 ?out False s2) evs))
      = socket (emitProgress ?n 0 ?out False s2) @ es"
    using run_socket [of L ?n ?out "estimateDuration L md" "estimateFrames L md"
        "(0, emitProgress ?n 0 ?out False s2)" evs] by auto
  have sock2: "socket (emitProgress ?n 0 ?out False s2) = socket s0 @ [?P, ?P]"
    by (simp add: s2_def s1_def socket_emitProgress clamp_def)
  have sup: "socket s4 = socket s0 @ [?P, ?P] @ es"
    using h first run sock2
    by (simp add: s4_def supervise_def Let_def split_beta s2_def [symmetric])
  obtain es' where "socket (snd (conclude L req env (nextAddr s0) s4)) = socket s4 @ es'"
    using conclude_socket by blast
  then have "socket (snd (handleConvert L req env s0)) = (socket s0 @ [?P, ?P]) @ (es @ es')"
    using sup by (simp add: hc)
  then show "take (length (socket s0) + 2) (socket (snd (handleConvert L req env s0)))
        = socket s0 @ [?P, ?P]"
    by simp
qed


text \<open>
  The theorem on the job of \<open>a.mov\<close> from the idle server, with \<open>frame=0\<close> as the first
  line of the progress stream.
\<close>

theorem zero_progress_twice_witness:
  "shouldEmitProgress 0 (- 5)
   \<and> shouldEmitProgress 3 (- 5)
   \<and> take 2 (socket (snd (handleConvert goAmd64 sampleRequest
        (envOf [StdoutLine ''frame=0'', StdoutLine ''out_time_ms=2000''] False []
           (Some (probeOf ''10'' ''10'' ''300'' ''30/1''))) idle)))
       = [ConversionProgress ''a.mov'' 0 ''out.mp4'' False,
          ConversionProgress ''a.mov'' 0 ''out.mp4'' False]"
proof -
  let ?E = "envOf [StdoutLine ''frame=0'', StdoutLine ''out_time_ms=2000''] False []
           (Some (probeOf ''10'' ''10'' ''300'' ''30/1''))"
  note t = zero_progress_twice [of 3 ?E "probeOf ''10'' ''10'' ''300'' ''30/1''" 7 "''frame=0''"
      "[StdoutLine ''out_time_ms=2000'']" "''frame''" "''0''" goAmd64 idle sampleRequest]
  have split: "SplitN2 ''frame=0'' CHR ''='' = [''frame'', ''0'']"
    by (simp add: SplitN2_def)
  have a: "shouldEmitProgress 0 (- 5)" "shouldEmitProgress 3 (- 5)"
    using t by (simp_all add: progressBroadcastStep_def)
  have b: "take 2 (socket (snd (handleConvert goAmd64 sampleRequest ?E idle)))
       = [ConversionProgress ''a.mov'' 0 ''out.mp4'' False,
          ConversionProgress ''a.mov'' 0 ''out.mp4'' False]"
    using t split
    by (simp add: sample_env sample_request sample_estimates sample_candidates trim_keys
        idle_state numeral_2_eq_2)
  from a b show ?thesis by simp
qed

end
